theory Spec2Isabelle
  imports Main "HOL-Library.Word" "HOL-Library.Sublist" "HOL-Library.List_Lexorder"
begin

section \<open>JavaScript strings\<close>

text \<open>
  A JavaScript string is a sequence of UTF-16 code units.  ASCII literals of the source are
  written through \<open>js\<close>; the Chinese literals are given by their code units.
\<close>

type_synonym jsstring = "16 word list"

definition js :: "string \<Rightarrow> jsstring" where
  "js s = map of_char s"

text \<open>
  \<open>String.prototype.trim\<close> removes the code points of WhiteSpace and LineTerminator
  (ECMA-262) from both ends; all of them lie in the basic plane.
\<close>

definition is_ws :: "16 word \<Rightarrow> bool" where
  "is_ws c = (c \<in> set [0x9, 0xA, 0xB, 0xC, 0xD, 0x20, 0xA0, 0x1680, 0x2028, 0x2029,
                        0x202F, 0x205F, 0x3000, 0xFEFF]
              \<or> (0x2000 \<le> c \<and> c \<le> 0x200A))"

definition trim :: "jsstring \<Rightarrow> jsstring" where
  "trim s = rev (dropWhile is_ws (rev (dropWhile is_ws s)))"

text \<open>\<open>s.includes(pat)\<close> of the source: \<open>pat\<close> occurs in \<open>s\<close> as a contiguous run.\<close>

fun js_includes :: "'a list \<Rightarrow> 'a list \<Rightarrow> bool" where
  "js_includes [] pat = (pat = [])"
| "js_includes (c # cs) pat = (prefix pat (c # cs) \<or> js_includes cs pat)"

text \<open>\<open>s.replace(/\/$/, '')\<close>: one slash at the very end of the string is removed.\<close>

definition strip_trailing_slash :: "jsstring \<Rightarrow> jsstring" where
  "strip_trailing_slash s = (if s \<noteq> [] \<and> last s = 0x2F then butlast s else s)"

text \<open>
  \<open>s.replace(/pat/g, '')\<close> for a pattern of literal characters: every occurrence, found
  from left to right without overlap, is removed.
\<close>

fun remove_all :: "'a list \<Rightarrow> 'a list \<Rightarrow> 'a list" where
  "remove_all pat [] = []"
| "remove_all pat (c # cs) =
     (if pat \<noteq> [] \<and> prefix pat (c # cs)
      then remove_all pat (drop (length pat - 1) cs)
      else c # remove_all pat cs)"

text \<open>Decimal rendering of a non-negative integer, as a template literal prints it.\<close>

fun show_nat :: "nat \<Rightarrow> jsstring" where
  "show_nat n = (if n < 10 then [of_nat (48 + n)]
                 else show_nat (n div 10) @ [of_nat (48 + n mod 10)])"

declare show_nat.simps [simp del]

text \<open>
  The regular expression \<open>/Failed to fetch/i\<close> has no \<open>u\<close> flag: a character beyond
  ASCII never matches an ASCII letter, so the test folds the case of ASCII letters only.
\<close>

definition ascii_lower :: "16 word \<Rightarrow> 16 word" where
  "ascii_lower c = (if 0x41 \<le> c \<and> c \<le> 0x5A then c + 0x20 else c)"

section \<open>Values, errors and the platform\<close>

text \<open>
  The values a parsed response body can hold.  A number is represented by the two
  observations this module makes of one: whether it is truthy (neither zero nor NaN) and
  its rendering by \<open>String\<close>.  \<open>undefined\<close> is \<open>None\<close> of \<open>json option\<close>.
\<close>

datatype json =
    JNull
  | JBool bool
  | JNum bool jsstring
  | JStr jsstring
  | JArr "json list"
  | JObj "(jsstring \<times> json) list"

type_synonym jsvalue = "json option"

fun truthy :: "jsvalue \<Rightarrow> bool" where
  "truthy None = False"
| "truthy (Some JNull) = False"
| "truthy (Some (JBool b)) = b"
| "truthy (Some (JNum nz r)) = nz"
| "truthy (Some (JStr s)) = (s \<noteq> [])"
| "truthy (Some (JArr xs)) = True"
| "truthy (Some (JObj kvs)) = True"

text \<open>\<open>a || b\<close>\<close>

definition js_or :: "jsvalue \<Rightarrow> jsvalue \<Rightarrow> jsvalue" where
  "js_or a b = (if truthy a then a else b)"

text \<open>
  \<open>v?.k\<close> for the property names this module reads (\<open>error\<close>, \<open>message\<close>,
  \<open>data\<close>, \<open>id\<close>, \<open>models\<close>, \<open>name\<close>, \<open>nextPageToken\<close>, \<open>choices\<close>,
  \<open>content\<close>, \<open>b64_json\<close>, \<open>url\<close>): none of them is inherited by a string, number,
  boolean or array, so only an object can hold one.
\<close>

fun get_opt :: "jsvalue \<Rightarrow> jsstring \<Rightarrow> jsvalue" where
  "get_opt (Some (JObj kvs)) k = map_of kvs k"
| "get_opt v k = None"

text \<open>\<open>v?.[0]\<close>: the first element of an array, the first code unit of a string, the
  property \<open>"0"\<close> of an object.\<close>

fun index0_opt :: "jsvalue \<Rightarrow> jsvalue" where
  "index0_opt (Some (JArr xs)) = (case xs of [] \<Rightarrow> None | x # _ \<Rightarrow> Some x)"
| "index0_opt (Some (JStr s)) = (case s of [] \<Rightarrow> None | c # _ \<Rightarrow> Some (JStr [c]))"
| "index0_opt (Some (JObj kvs)) = map_of kvs (js ''0'')"
| "index0_opt v = None"

text \<open>\<open>String(v)\<close> on a value that came out of a JSON body.\<close>

fun join_with :: "jsstring \<Rightarrow> jsstring list \<Rightarrow> jsstring" where
  "join_with sep [] = []"
| "join_with sep [x] = x"
| "join_with sep (x # y # ys) = x @ sep @ join_with sep (y # ys)"

fun to_String :: "json \<Rightarrow> jsstring" where
  "to_String JNull = js ''null''"
| "to_String (JBool b) = (if b then js ''true'' else js ''false'')"
| "to_String (JNum nz r) = r"
| "to_String (JStr s) = s"
| "to_String (JArr xs) =
     join_with (js '','') (map (\<lambda>x. if x = JNull then [] else to_String x) xs)"
| "to_String (JObj kvs) = js ''[object Object]''"

text \<open>A template literal prints \<open>undefined\<close> by name.\<close>

definition template :: "jsvalue \<Rightarrow> jsstring" where
  "template v = (case v of None \<Rightarrow> js ''undefined'' | Some x \<Rightarrow> to_String x)"

text \<open>
  Every value the module can catch is an error object; of one it reads \<open>message\<close> and,
  through \<open>String(e)\<close>, \<open>name\<close>.
\<close>

datatype js_error = JsError (err_name: jsstring) (err_message: jsstring)

definition new_Error :: "jsstring \<Rightarrow> js_error" where
  "new_Error msg = JsError (js ''Error'') msg"

text \<open>\<open>Error.prototype.toString\<close>\<close>

definition error_toString :: "js_error \<Rightarrow> jsstring" where
  "error_toString e =
     (if err_name e = [] then err_message e
      else if err_message e = [] then err_name e
      else err_name e @ js '': '' @ err_message e)"

text \<open>
  The errors the engine raises by itself.  Its wording may name what was read or called
  and the value at hand, so a fault records them: the value (\<open>null\<close> or
  \<open>undefined\<close>) a property was read from and the name of the property; the text of the
  expression that was called and the value that was found not to be a function's owner;
  the number of arguments a spread call was made with.
\<close>

datatype fault =
    NullishRead jsvalue jsstring
  | NotAFunction jsstring jsvalue
  | TooManyArguments nat

text \<open>
  What the engine and its library decide, taken as parameters: the collation behind
  \<open>localeCompare\<close>, \<open>encodeURIComponent\<close> (which throws a URIError on a lone
  surrogate), the Unicode table behind \<open>toLowerCase\<close>, the wording of the errors the
  engine raises, and the largest number of arguments it accepts in one spread call
  \<open>f(...xs)\<close> before it raises a RangeError.
\<close>

record platform =
  localeCompare :: "jsstring \<Rightarrow> jsstring \<Rightarrow> int"
  encodeURIComponent :: "jsstring \<Rightarrow> js_error + jsstring"
  toLowerCase :: "jsstring \<Rightarrow> jsstring"
  engineMessage :: "fault \<Rightarrow> jsstring"
  maxArguments :: nat

definition type_error :: "platform \<Rightarrow> fault \<Rightarrow> js_error" where
  "type_error P f = JsError (js ''TypeError'') (engineMessage P f)"

definition range_error :: "platform \<Rightarrow> fault \<Rightarrow> js_error" where
  "range_error P f = JsError (js ''RangeError'') (engineMessage P f)"

text \<open>\<open>v.k\<close> without the question mark: reading from \<open>null\<close> or \<open>undefined\<close> throws.\<close>

definition get_strict :: "platform \<Rightarrow> jsvalue \<Rightarrow> jsstring \<Rightarrow> js_error + jsvalue" where
  "get_strict P v k =
     (if v = None \<or> v = Some JNull then Inl (type_error P (NullishRead v k))
      else Inr (get_opt v k))"

definition index0_strict :: "platform \<Rightarrow> jsvalue \<Rightarrow> js_error + jsvalue" where
  "index0_strict P v =
     (if v = None \<or> v = Some JNull then Inl (type_error P (NullishRead v (js ''0'')))
      else Inr (index0_opt v))"

section \<open>Transport helpers\<close>

text \<open>
  \<open>new Set(list)\<close> keeps the first occurrence of each element, in insertion order;
  \<open>Array.from\<close> reads them back in that order.
\<close>

definition set_add :: "'a list \<Rightarrow> 'a \<Rightarrow> 'a list" where
  "set_add seen x = (if x \<in> set seen then seen else seen @ [x])"

definition new_Set :: "'a list \<Rightarrow> 'a list" where
  "new_Set xs = foldl set_add [] xs"

text \<open>
  \<open>Array.prototype.sort(cmp)\<close> is a stable sort: for a consistent comparator its result
  is the one insertion sort gives, where an element goes before the first one it does not
  exceed.
\<close>

fun insort_cmp :: "('a \<Rightarrow> 'a \<Rightarrow> int) \<Rightarrow> 'a \<Rightarrow> 'a list \<Rightarrow> 'a list" where
  "insort_cmp cmp x [] = [x]"
| "insort_cmp cmp x (y # ys) =
     (if cmp x y \<le> 0 then x # y # ys else y # insort_cmp cmp x ys)"

definition js_sort :: "('a \<Rightarrow> 'a \<Rightarrow> int) \<Rightarrow> 'a list \<Rightarrow> 'a list" where
  "js_sort cmp xs = foldr (insort_cmp cmp) xs []"

definition dedupeAndSort :: "platform \<Rightarrow> jsstring list \<Rightarrow> jsstring list" where
  "dedupeAndSort P models =
     js_sort (\<lambda>a b. localeCompare P a b)
       (new_Set (filter (\<lambda>m. m \<noteq> []) (map trim models)))"

text \<open>\<open>name.replace(/^models\//, '')\<close>\<close>

definition stripGeminiModelPrefix :: "jsstring \<Rightarrow> jsstring" where
  "stripGeminiModelPrefix name =
     (if prefix (js ''models/'') name then drop 7 name else name)"

text \<open>
  \<open>withSearchParams\<close>: the entries are taken in the order they were written; one whose
  value is \<open>undefined\<close> or the empty string is left out.
\<close>

fun encode_entries ::
  "platform \<Rightarrow> (jsstring \<times> jsvalue) list \<Rightarrow> js_error + jsstring list" where
  "encode_entries P [] = Inr []"
| "encode_entries P ((k, v) # rest) =
     (case v of
        None \<Rightarrow> encode_entries P rest
      | Some x \<Rightarrow>
          if x = JStr [] then encode_entries P rest
          else (case encodeURIComponent P k of
                  Inl e \<Rightarrow> Inl e
                | Inr ek \<Rightarrow>
                    (case encodeURIComponent P (to_String x) of
                       Inl e \<Rightarrow> Inl e
                     | Inr ev \<Rightarrow>
                         (case encode_entries P rest of
                            Inl e \<Rightarrow> Inl e
                          | Inr others \<Rightarrow> Inr ((ek @ js ''='' @ ev) # others)))))"

definition withSearchParams ::
  "platform \<Rightarrow> jsstring \<Rightarrow> (jsstring \<times> jsvalue) list \<Rightarrow> js_error + jsstring" where
  "withSearchParams P url params =
     (case encode_entries P params of
        Inl e \<Rightarrow> Inl e
      | Inr parts \<Rightarrow>
          (let query = join_with (js ''&'') parts in
           if query = [] then Inr url
           else Inr (url @ (if js_includes url (js ''?'') then js ''&'' else js ''?'') @ query)))"

definition cors_hint :: jsstring where
  "cors_hint = [0xFF08, 0x53EF, 0x80FD, 0x662F, 0x6D4F, 0x89C8, 0x5668, 0x8DE8, 0x57DF]
     @ js '' CORS '' @ [0x6216, 0x7F51, 0x7EDC, 0x95EE, 0x9898, 0xFF09]"

definition formatNetworkError :: "js_error \<Rightarrow> jsstring" where
  "formatNetworkError e =
     (let msg = (if err_message e \<noteq> [] then err_message e else error_toString e) in
      if js_includes (map ascii_lower msg) (js ''failed to fetch'') then msg @ cors_hint
      else msg)"

section \<open>The outside world\<close>

text \<open>
  The module talks to the network through \<open>fetch\<close> and through the two calls of the
  Gemini client library.  Each is an oracle of the world: given the calls issued so far
  and the new one, it tells how the call settles.  Every operation takes the list of calls
  issued so far and returns it extended by its own, so that what was sent, in which
  order, is part of the result.  \<open>console.error\<close> is not recorded.
\<close>

datatype http_method = GET | POST

record request =
  req_url :: jsstring
  req_method :: http_method
  req_headers :: "(jsstring \<times> jsstring) list"
  req_body :: "json option"

text \<open>
  \<open>req_body\<close> is the value handed to \<open>JSON.stringify\<close>.  Of a response the module
  reads \<open>status\<close>, \<open>statusText\<close>, \<open>ok\<close> (true for a status from 200 to 299) and, once,
  \<open>json()\<close>, which rejects when the body cannot be parsed.
\<close>

record response =
  status :: nat
  statusText :: jsstring
  json_body :: "js_error + json"

definition ok :: "response \<Rightarrow> bool" where
  "ok r = (200 \<le> status r \<and> status r \<le> 299)"

record genai_client =
  client_apiKey :: "jsstring option"
  client_baseUrl :: "jsstring option"

datatype contents = Text jsstring | Parts "jsstring list"

record content_request =
  gc_client :: genai_client
  gc_model :: jsstring
  gc_contents :: contents
  gc_temperature :: "json option"
  gc_systemInstruction :: "jsstring option"
  gc_aspectRatio :: "jsstring option"

record inline_data =
  inl_data :: "jsstring option"
  inl_mimeType :: "jsstring option"

text \<open>
  A part is represented by its \<open>inlineData\<close>, a candidate by its \<open>content?.parts\<close>.
\<close>

record content_response =
  response_text :: "jsstring option"
  candidates :: "inline_data option list option list option"

record images_request =
  gi_client :: genai_client
  gi_model :: jsstring
  gi_prompt :: jsstring
  gi_numberOfImages :: nat
  gi_aspectRatio :: jsstring
  gi_outputMimeType :: jsstring

text \<open>
  A generated image is represented by its \<open>image\<close> (which may be missing), an image by its
  \<open>imageBytes\<close> (which may be missing too).
\<close>

record images_response =
  generatedImages :: "jsstring option option list option"

datatype call =
    Fetch request
  | GenerateContent content_request
  | GenerateImages images_request

record world =
  fetch :: "call list \<Rightarrow> request \<Rightarrow> js_error + response"
  generateContent :: "call list \<Rightarrow> content_request \<Rightarrow> js_error + content_response"
  generateImages :: "call list \<Rightarrow> images_request \<Rightarrow> js_error + images_response"

datatype provider = Gemini | OpenAI

record AIConfig =
  provider :: provider
  apiKey :: "jsstring option"
  baseUrl :: "jsstring option"
  chatModel :: "jsstring option"
  imageModel :: "jsstring option"
  temperature :: "json option"

section \<open>Model discovery\<close>

text \<open>
  \<open>config.baseUrl ? config.baseUrl.replace(/\/$/, '') : 'https://api.openai.com/v1'\<close>,
  the base URL of the three OpenAI-compatible calls.
\<close>

definition openai_default_base :: jsstring where
  "openai_default_base = js ''https://api.openai.com/v1''"

definition openai_baseUrl :: "jsstring option \<Rightarrow> jsstring" where
  "openai_baseUrl b =
     (case b of
        None \<Rightarrow> openai_default_base
      | Some u \<Rightarrow> if u \<noteq> [] then strip_trailing_slash u else openai_default_base)"

text \<open>
  \<open>config.baseUrl && config.baseUrl.trim() !== '' ?
     config.baseUrl.trim().replace(/\/$/, '') : ''\<close>, the custom base of Gemini discovery.
\<close>

definition gemini_customBase :: "jsstring option \<Rightarrow> jsstring" where
  "gemini_customBase b =
     (case b of
        None \<Rightarrow> []
      | Some u \<Rightarrow> if u \<noteq> [] \<and> trim u \<noteq> [] then strip_trailing_slash (trim u) else [])"

text \<open>\<open>/\/v1beta(\/|$)/.test(s)\<close>\<close>

definition has_v1beta :: "jsstring \<Rightarrow> bool" where
  "has_v1beta s = (js_includes s (js ''/v1beta/'') \<or> suffix (js ''/v1beta'') s)"

definition gemini_default_endpoint :: jsstring where
  "gemini_default_endpoint = js ''https://generativelanguage.googleapis.com/v1beta/models''"

definition gemini_endpoints :: "jsstring option \<Rightarrow> jsstring list" where
  "gemini_endpoints b =
     (let customBase = gemini_customBase b in
      if customBase \<noteq> []
      then (customBase @ js ''/models'')
             # (if has_v1beta customBase then [] else [customBase @ js ''/v1beta/models''])
      else [gemini_default_endpoint])"

definition list_failed :: jsstring where
  "list_failed = [0x6A21, 0x578B, 0x5217, 0x8868, 0x83B7, 0x53D6, 0x5931, 0x8D25]"

definition configure_key_msg :: jsstring where
  "configure_key_msg =
     [0x8BF7, 0x5148, 0x5728, 0x8BBE, 0x7F6E, 0x4E2D, 0x914D, 0x7F6E] @ js '' API Key''"

definition unknown_failure_msg :: jsstring where
  "unknown_failure_msg = list_failed @ [0xFF1A, 0x672A, 0x77E5, 0x9519, 0x8BEF]"

text \<open>
  The error thrown for a response that is not ok: the message of the parsed error body,
  else the status text, else the status code, behind the prefix of a failed listing.
  \<open>safeParseJson\<close> turns a body that cannot be parsed into \<open>null\<close>.
\<close>

definition safeParseJson :: "response \<Rightarrow> json" where
  "safeParseJson r = (case json_body r of Inl e \<Rightarrow> JNull | Inr v \<Rightarrow> v)"

definition http_detail :: "response \<Rightarrow> jsstring" where
  "http_detail r =
     template
       (js_or (js_or (get_opt (get_opt (Some (safeParseJson r)) (js ''error'')) (js ''message''))
                     (Some (JStr (statusText r))))
              (Some (JStr (js ''HTTP '' @ show_nat (status r)))))"

definition http_failure :: "response \<Rightarrow> js_error" where
  "http_failure r = new_Error (list_failed @ js '': '' @ http_detail r)"

datatype auth_mode = ByQuery | ByHeader

text \<open>
  The request of one page.  The two blocks of the loop body differ in this only: the first
  sends the key as the query parameter \<open>key\<close>, the second as the header
  \<open>x-goog-api-key\<close>.
\<close>

definition page_request ::
  "platform \<Rightarrow> auth_mode \<Rightarrow> jsstring \<Rightarrow> jsstring \<Rightarrow> jsvalue \<Rightarrow> js_error + request" where
  "page_request P mode endpoint key pageToken =
     (case mode of
        ByQuery \<Rightarrow>
          (case withSearchParams P endpoint
                  [(js ''key'', Some (JStr key)), (js ''pageToken'', pageToken)] of
             Inl e \<Rightarrow> Inl e
           | Inr url \<Rightarrow>
               Inr \<lparr>req_url = url, req_method = GET, req_headers = [], req_body = None\<rparr>)
      | ByHeader \<Rightarrow>
          (case withSearchParams P endpoint [(js ''pageToken'', pageToken)] of
             Inl e \<Rightarrow> Inl e
           | Inr url \<Rightarrow>
               Inr \<lparr>req_url = url, req_method = GET,
                    req_headers = [(js ''x-goog-api-key'', key)], req_body = None\<rparr>))"

text \<open>
  \<open>(data?.models || []).map(m => stripGeminiModelPrefix(m?.name || '')).filter(Boolean)\<close>:
  \<open>map\<close> exists on arrays only, \<open>replace\<close> on strings only.
\<close>

fun strip_names :: "platform \<Rightarrow> json list \<Rightarrow> js_error + jsstring list" where
  "strip_names P [] = Inr []"
| "strip_names P (m # ms) =
     (case js_or (get_opt (Some m) (js ''name'')) (Some (JStr [])) of
        Some (JStr n) \<Rightarrow>
          (case strip_names P ms of
             Inl e \<Rightarrow> Inl e
           | Inr rest \<Rightarrow> Inr (stripGeminiModelPrefix n # rest))
      | v \<Rightarrow> Inl (type_error P (NotAFunction (js ''name.replace'') v)))"

definition page_models :: "platform \<Rightarrow> json \<Rightarrow> js_error + jsstring list" where
  "page_models P data =
     (case js_or (get_opt (Some data) (js ''models'')) (Some (JArr [])) of
        Some (JArr ms) \<Rightarrow>
          (case strip_names P ms of
             Inl e \<Rightarrow> Inl e
           | Inr names \<Rightarrow> Inr (filter (\<lambda>n. n \<noteq> []) names))
      | v \<Rightarrow> Inl (type_error P (NotAFunction (js ''(data?.models || []).map'') v)))"

text \<open>
  The \<open>do \<dots> while (pageToken)\<close> loop of one attempt: one call of \<open>paginate\<close> is one
  run of the body, entered with the values of \<open>guard\<close>, \<open>models\<close> and \<open>pageToken\<close> at
  that moment.  \<open>break\<close> leaves the loop with the models gathered so far.
  \<open>models.push(...pageModels)\<close> is a spread call: the engine raises a RangeError, inside
  the \<open>try\<close> block, when the page holds more entries than it accepts as arguments.
\<close>

function paginate ::
  "platform \<Rightarrow> world \<Rightarrow> auth_mode \<Rightarrow> jsstring \<Rightarrow> jsstring \<Rightarrow> nat \<Rightarrow> jsstring list \<Rightarrow> jsvalue
     \<Rightarrow> call list \<Rightarrow> (js_error + jsstring list) \<times> call list" where
  "paginate P W mode endpoint key guard models pageToken log =
     (if guard + 1 > 20 \<or> length models > 500 then (Inr models, log)
      else
        (case page_request P mode endpoint key pageToken of
           Inl e \<Rightarrow> (Inl e, log)
         | Inr req \<Rightarrow>
             (case fetch W log req of
                Inl e \<Rightarrow> (Inl e, log @ [Fetch req])
              | Inr r \<Rightarrow>
                  if \<not> ok r then (Inl (http_failure r), log @ [Fetch req])
                  else
                    (case json_body r of
                       Inl e \<Rightarrow> (Inl e, log @ [Fetch req])
                     | Inr data \<Rightarrow>
                         (case page_models P data of
                            Inl e \<Rightarrow> (Inl e, log @ [Fetch req])
                          | Inr pageModels \<Rightarrow>
                              if length pageModels > maxArguments P
                              then (Inl (range_error P (TooManyArguments (length pageModels))),
                                    log @ [Fetch req])
                              else if truthy (get_opt (Some data) (js ''nextPageToken''))
                              then paginate P W mode endpoint key (guard + 1)
                                     (models @ pageModels)
                                     (get_opt (Some data) (js ''nextPageToken''))
                                     (log @ [Fetch req])
                              else (Inr (models @ pageModels), log @ [Fetch req]))))))"
  by pat_completeness auto
termination
  by (relation "measure (\<lambda>(P, W, mode, endpoint, key, guard, models, pageToken, log). 20 - guard)")
     auto

declare paginate.simps [simp del]

text \<open>One \<open>try\<close> block: the loop from its initial values, then \<open>dedupeAndSort\<close>.\<close>

definition attempt ::
  "platform \<Rightarrow> world \<Rightarrow> auth_mode \<Rightarrow> jsstring \<Rightarrow> jsstring \<Rightarrow> call list
     \<Rightarrow> (js_error + jsstring list) \<times> call list" where
  "attempt P W mode endpoint key log =
     (case paginate P W mode endpoint key 0 [] None log of
        (Inl e, log') \<Rightarrow> (Inl e, log')
      | (Inr models, log') \<Rightarrow> (Inr (dedupeAndSort P models), log'))"

definition gemini_wrap :: "js_error \<Rightarrow> js_error" where
  "gemini_wrap e = new_Error (js ''Gemini '' @ list_failed @ js '': '' @ formatNetworkError e)"

text \<open>
  The \<open>for\<close> loop over the endpoints, with \<open>lastError\<close> as it stands on entry.  A
  \<open>return\<close> inside a \<open>try\<close> block leaves the whole function.
\<close>

fun discover ::
  "platform \<Rightarrow> world \<Rightarrow> jsstring \<Rightarrow> jsstring list \<Rightarrow> js_error option \<Rightarrow> call list
     \<Rightarrow> (js_error + jsstring list) \<times> call list" where
  "discover P W key [] lastError log =
     (Inl (case lastError of Some e \<Rightarrow> e | None \<Rightarrow> new_Error unknown_failure_msg), log)"
| "discover P W key (endpoint # rest) lastError log =
     (case attempt P W ByQuery endpoint key log of
        (Inr models, log1) \<Rightarrow> (Inr models, log1)
      | (Inl e1, log1) \<Rightarrow>
          (let lastError1 = Some (gemini_wrap e1) in
           case attempt P W ByHeader endpoint key log1 of
             (Inr models, log2) \<Rightarrow> (Inr models, log2)
           | (Inl e2, log2) \<Rightarrow> discover P W key rest (Some (gemini_wrap e2)) log2))"

text \<open>
  The OpenAI-compatible listing.  \<open>dedupeAndSort\<close> is handed whatever truthy \<open>id\<close>s the
  body holds; \<open>trim\<close> exists on strings only.
\<close>

fun as_strings :: "platform \<Rightarrow> jsvalue list \<Rightarrow> js_error + jsstring list" where
  "as_strings P [] = Inr []"
| "as_strings P (v # vs) =
     (case v of
        Some (JStr s) \<Rightarrow>
          (case as_strings P vs of Inl e \<Rightarrow> Inl e | Inr rest \<Rightarrow> Inr (s # rest))
      | _ \<Rightarrow> Inl (type_error P (NotAFunction (js ''m.trim'') v)))"

definition openai_models :: "platform \<Rightarrow> json \<Rightarrow> js_error + jsstring list" where
  "openai_models P data =
     (case js_or (get_opt (Some data) (js ''data'')) (Some (JArr [])) of
        Some (JArr ms) \<Rightarrow>
          (case as_strings P (filter truthy (map (\<lambda>m. get_opt (Some m) (js ''id'')) ms)) of
             Inl e \<Rightarrow> Inl e
           | Inr ids \<Rightarrow> Inr (dedupeAndSort P ids))
      | v \<Rightarrow> Inl (type_error P (NotAFunction (js ''(data?.data || []).map'') v)))"

definition models_request :: "jsstring \<Rightarrow> jsstring \<Rightarrow> request" where
  "models_request base key =
     \<lparr>req_url = base @ js ''/models'', req_method = GET,
      req_headers = [(js ''Authorization'', js ''Bearer '' @ key)], req_body = None\<rparr>"

text \<open>The body of the \<open>try\<close> block of the OpenAI-compatible listing.\<close>

definition openai_list_try ::
  "platform \<Rightarrow> world \<Rightarrow> jsstring \<Rightarrow> jsstring \<Rightarrow> call list
     \<Rightarrow> (js_error + jsstring list) \<times> call list" where
  "openai_list_try P W base key log =
     (let req = models_request base key in
      case fetch W log req of
        Inl e \<Rightarrow> (Inl e, log @ [Fetch req])
      | Inr r \<Rightarrow>
          if \<not> ok r then (Inl (http_failure r), log @ [Fetch req])
          else
            (case json_body r of
               Inl e \<Rightarrow> (Inl e, log @ [Fetch req])
             | Inr data \<Rightarrow> (openai_models P data, log @ [Fetch req])))"

definition openai_wrap :: "js_error \<Rightarrow> js_error" where
  "openai_wrap e = new_Error (js ''OpenAI '' @ list_failed @ js '': '' @ formatNetworkError e)"

definition listModels ::
  "platform \<Rightarrow> world \<Rightarrow> AIConfig \<Rightarrow> call list \<Rightarrow> (js_error + jsstring list) \<times> call list" where
  "listModels P W config log =
     (case apiKey config of
        None \<Rightarrow> (Inl (new_Error configure_key_msg), log)
      | Some key \<Rightarrow>
          if key = [] then (Inl (new_Error configure_key_msg), log)
          else if provider config = OpenAI
          then (case openai_list_try P W (openai_baseUrl (baseUrl config)) key log of
                  (Inl e, log') \<Rightarrow> (Inl (openai_wrap e), log')
                | (Inr models, log') \<Rightarrow> (Inr models, log'))
          else discover P W key (gemini_endpoints (baseUrl config)) None log)"

section \<open>The OpenAI-compatible adapter\<close>

text \<open>\<open>${config.apiKey}\<close> inside a template literal.\<close>

definition key_text :: "AIConfig \<Rightarrow> jsstring" where
  "key_text config = (case apiKey config of None \<Rightarrow> js ''undefined'' | Some k \<Rightarrow> k)"

text \<open>\<open>s || d\<close> for an optional string \<open>s\<close> and a literal \<open>d\<close>.\<close>

definition or_default :: "jsstring option \<Rightarrow> jsstring \<Rightarrow> jsstring" where
  "or_default s d = (case s of None \<Rightarrow> d | Some x \<Rightarrow> if x \<noteq> [] then x else d)"

definition chat_message :: "jsstring \<Rightarrow> jsstring \<Rightarrow> json" where
  "chat_message role content = JObj [(js ''role'', JStr role), (js ''content'', JStr content)]"

definition json_headers :: "AIConfig \<Rightarrow> (jsstring \<times> jsstring) list" where
  "json_headers config =
     [(js ''Content-Type'', js ''application/json''),
      (js ''Authorization'', js ''Bearer '' @ key_text config)]"

text \<open>
  The error of a response that is not ok, in the two \<open>POST\<close> helpers: the body, or
  \<open>{error: {message: statusText}}\<close> when it cannot be parsed, then
  \<open>error.error?.message || `<label>${response.status}`\<close>.
\<close>

definition post_failure :: "platform \<Rightarrow> jsstring \<Rightarrow> response \<Rightarrow> js_error" where
  "post_failure P label r =
     (let error = (case json_body r of
                     Inl e \<Rightarrow> JObj [(js ''error'', JObj [(js ''message'', JStr (statusText r))])]
                   | Inr v \<Rightarrow> v) in
      case get_strict P (Some error) (js ''error'') of
        Inl e \<Rightarrow> e
      | Inr inner \<Rightarrow>
          new_Error (template (js_or (get_opt inner (js ''message''))
                                     (Some (JStr (label @ show_nat (status r)))))))"

definition chat_request :: "AIConfig \<Rightarrow> json list \<Rightarrow> jsstring option \<Rightarrow> request" where
  "chat_request config messages systemInstruction =
     (let finalMessages =
            (if or_default systemInstruction [] \<noteq> []
             then [chat_message (js ''system'') (or_default systemInstruction [])]
             else []) @ messages
      in \<lparr>req_url = openai_baseUrl (baseUrl config) @ js ''/chat/completions'',
          req_method = POST,
          req_headers = json_headers config,
          req_body = Some (JObj ([(js ''model'', JStr (or_default (chatModel config) (js ''gpt-3.5-turbo''))),
                                  (js ''messages'', JArr finalMessages)]
                                 @ (case temperature config of
                                      None \<Rightarrow> []
                                    | Some t \<Rightarrow> [(js ''temperature'', t)])))\<rparr>)"

definition callOpenAIChat ::
  "platform \<Rightarrow> world \<Rightarrow> AIConfig \<Rightarrow> json list \<Rightarrow> jsstring option \<Rightarrow> call list
     \<Rightarrow> (js_error + jsvalue) \<times> call list" where
  "callOpenAIChat P W config messages systemInstruction log =
     (let req = chat_request config messages systemInstruction in
      case fetch W log req of
        Inl e \<Rightarrow> (Inl e, log @ [Fetch req])
      | Inr r \<Rightarrow>
          if \<not> ok r
          then (Inl (post_failure P (js ''OpenAI Request Failed: '') r), log @ [Fetch req])
          else
            (case json_body r of
               Inl e \<Rightarrow> (Inl e, log @ [Fetch req])
             | Inr data \<Rightarrow>
                 (case get_strict P (Some data) (js ''choices'') of
                    Inl e \<Rightarrow> (Inl e, log @ [Fetch req])
                  | Inr choices \<Rightarrow>
                      (Inr (js_or (get_opt (get_opt (index0_opt choices) (js ''message''))
                                           (js ''content''))
                                  (Some (JStr (js ''AI returned empty response'')))),
                       log @ [Fetch req]))))"

text \<open>The pixel size asked of the provider.\<close>

definition openai_image_size :: "jsstring \<Rightarrow> jsstring" where
  "openai_image_size sz =
     (let sizeStr = js ''1024x1024'' in
      if js_includes sz (js ''1024'') then js ''1024x1024''
      else if sz = js ''16:9'' then js ''1792x1024''
      else sizeStr)"

definition image_request :: "AIConfig \<Rightarrow> jsstring \<Rightarrow> jsstring \<Rightarrow> request" where
  "image_request config prompt sz =
     \<lparr>req_url = openai_baseUrl (baseUrl config) @ js ''/images/generations'',
      req_method = POST,
      req_headers = json_headers config,
      req_body = Some (JObj [(js ''model'', JStr (or_default (imageModel config) (js ''dall-e-3''))),
                             (js ''prompt'', JStr prompt),
                             (js ''n'', JNum True (js ''1'')),
                             (js ''size'', JStr (openai_image_size sz)),
                             (js ''response_format'', JStr (js ''b64_json''))])\<rparr>"

text \<open>
  What follows \<open>const data = await response.json()\<close> in \<open>callOpenAIImage\<close>:
  \<open>data.data[0]\<close> throws when \<open>data\<close> or \<open>data.data\<close> is \<open>null\<close> or
  \<open>undefined\<close>.
\<close>

definition image_of_body :: "platform \<Rightarrow> json \<Rightarrow> js_error + jsvalue" where
  "image_of_body P data =
     (case get_strict P (Some data) (js ''data'') of
        Inl e \<Rightarrow> Inl e
      | Inr d \<Rightarrow>
          (case index0_strict P d of
             Inl e \<Rightarrow> Inl e
           | Inr first \<Rightarrow>
               (let b64 = get_opt first (js ''b64_json'') in
                if truthy b64 then Inr (Some (JStr (js ''data:image/png;base64,'' @ template b64)))
                else Inr (js_or (get_opt first (js ''url'')) (Some (JStr []))))))"

definition callOpenAIImage ::
  "platform \<Rightarrow> world \<Rightarrow> AIConfig \<Rightarrow> jsstring \<Rightarrow> jsstring \<Rightarrow> call list
     \<Rightarrow> (js_error + jsvalue) \<times> call list" where
  "callOpenAIImage P W config prompt sz log =
     (let req = image_request config prompt sz in
      case fetch W log req of
        Inl e \<Rightarrow> (Inl e, log @ [Fetch req])
      | Inr r \<Rightarrow>
          if \<not> ok r
          then (Inl (post_failure P (js ''OpenAI Image Request Failed: '') r), log @ [Fetch req])
          else
            (case json_body r of
               Inl e \<Rightarrow> (Inl e, log @ [Fetch req])
             | Inr data \<Rightarrow> (image_of_body P data, log @ [Fetch req])))"

section \<open>The public operations\<close>

definition formatting_prompt :: jsstring where
  "formatting_prompt =
     [0x4F60, 0x662F, 0x4E00, 0x4E2A, 0x5FAE, 0x4FE1, 0x516C, 0x4F17, 0x53F7, 0x6392, 0x7248, 0x4E13,
     0x5BB6, 0x3002, 0x8BF7, 0x5BF9, 0x7528, 0x6237, 0x63D0, 0x4F9B, 0x7684, 0x6587, 0x7AE0, 0x5185,
     0x5BB9, 0x8FDB, 0x884C, 0x81EA, 0x52A8, 0x6392, 0x7248, 0x4F18, 0x5316, 0xFF0C, 0x4F7F, 0x5176,
     0x7B26, 0x5408, 0x516C, 0x4F17, 0x53F7, 0x9605, 0x8BFB, 0x4E60, 0x60EF, 0x3002, 0xA, 0x20,
     0x20, 0x5177, 0x4F53, 0x8981, 0x6C42, 0xFF1A, 0xA, 0x20, 0x20, 0x31, 0x2E, 0x20,
     0x7ED3, 0x6784, 0x4F18, 0x5316, 0xFF1A, 0x81EA, 0x52A8, 0x8BC6, 0x522B, 0x6587, 0x7AE0, 0x903B,
     0x8F91, 0xFF0C, 0x4F7F, 0x7528, 0x20, 0x4D, 0x61, 0x72, 0x6B, 0x64, 0x6F, 0x77,
     0x6E, 0x20, 0x6807, 0x9898, 0x8BED, 0x6CD5, 0x20, 0x28, 0x23, 0x2C, 0x20, 0x23,
     0x23, 0x2C, 0x20, 0x23, 0x23, 0x23, 0x29, 0x20, 0x5212, 0x5206, 0x5C42, 0x7EA7,
     0x20, 0x28, 0x48, 0x31, 0x2D, 0x48, 0x33, 0x29, 0x3002, 0xA, 0x20, 0x20,
     0x32, 0x2E, 0x20, 0x6BB5, 0x843D, 0x4F18, 0x5316, 0xFF1A, 0x5C06, 0x8FC7, 0x957F, 0x7684,
     0x6BB5, 0x843D, 0x62C6, 0x5206, 0x4E3A, 0x7B80, 0x77ED, 0x7684, 0x6BB5, 0x843D, 0xFF0C, 0x9002,
     0x5F53, 0x589E, 0x52A0, 0x7A7A, 0x884C, 0xFF0C, 0x63D0, 0x5347, 0x79FB, 0x52A8, 0x7AEF, 0x9605,
     0x8BFB, 0x4F53, 0x9A8C, 0x3002, 0xA, 0x20, 0x20, 0x33, 0x2E, 0x20, 0x91CD, 0x70B9,
     0x7A81, 0x51FA, 0xFF1A, 0x8BC6, 0x522B, 0x5173, 0x952E, 0x4FE1, 0x606F, 0x3001, 0x91D1, 0x53E5,
     0x6216, 0x603B, 0x7ED3, 0xFF0C, 0x4F7F, 0x7528, 0x5F15, 0x7528, 0x5757, 0x20, 0x28, 0x3E,
     0x29, 0x20, 0x5305, 0x88F9, 0xFF1B, 0x5BF9, 0x6838, 0x5FC3, 0x5173, 0x952E, 0x8BCD, 0x4F7F,
     0x7528, 0x52A0, 0x7C97, 0x20, 0x28, 0x2A, 0x2A, 0x29, 0x3002, 0xA, 0x20, 0x20,
     0x34, 0x2E, 0x20, 0x5217, 0x8868, 0x4F18, 0x5316, 0xFF1A, 0x5C06, 0x6B65, 0x9AA4, 0x3001,
     0x8981, 0x70B9, 0x7B49, 0x5185, 0x5BB9, 0x8F6C, 0x6362, 0x4E3A, 0x65E0, 0x5E8F, 0x5217, 0x8868,
     0x20, 0x28, 0x2D, 0x29, 0x20, 0x6216, 0x6709, 0x5E8F, 0x5217, 0x8868, 0x20, 0x28,
     0x31, 0x2E, 0x29, 0x3002, 0xA, 0x20, 0x20, 0x35, 0x2E, 0x20, 0x4E25, 0x7981,
     0x7BE1, 0x6539, 0xFF1A, 0x4FDD, 0x6301, 0x539F, 0x6587, 0x6838, 0x5FC3, 0x610F, 0x601D, 0x548C,
     0x6587, 0x5B57, 0x5185, 0x5BB9, 0x4E0D, 0x53D8, 0xFF0C, 0x4EC5, 0x505A, 0x7ED3, 0x6784, 0x548C,
     0x6837, 0x5F0F, 0x7684, 0x4D, 0x61, 0x72, 0x6B, 0x64, 0x6F, 0x77, 0x6E, 0x8BED,
     0x6CD5, 0x8C03, 0x6574, 0x3002, 0xA, 0x20, 0x20, 0x36, 0x2E, 0x20, 0x8F93, 0x51FA,
     0x8981, 0x6C42, 0xFF1A, 0x76F4, 0x63A5, 0x8FD4, 0x56DE, 0x4F18, 0x5316, 0x540E, 0x7684, 0x20,
     0x4D, 0x61, 0x72, 0x6B, 0x64, 0x6F, 0x77, 0x6E, 0x20, 0x6E90, 0x7801, 0xFF0C,
     0x4E0D, 0x8981, 0x5305, 0x542B, 0x20, 0x22, 0x597D, 0x7684, 0x22, 0x3001, 0x22, 0x4F18,
     0x5316, 0x5982, 0x4E0B, 0x22, 0x20, 0x7B49, 0x4EFB, 0x4F55, 0x89E3, 0x91CA, 0x6027, 0x5E9F,
     0x8BDD, 0x3002]"

definition theme_prompt_head :: jsstring where
  "theme_prompt_head =
     [0x4F60, 0x662F, 0x4E00, 0x4E2A, 0x43, 0x53, 0x53, 0x4E13, 0x5BB6, 0x3002, 0x8BF7, 0x6839,
     0x636E, 0x7528, 0x6237, 0x7684, 0x63CF, 0x8FF0, 0xFF0C, 0x751F, 0x6210, 0x4E00, 0x6BB5, 0x7528,
     0x4E8E, 0x5FAE, 0x4FE1, 0x516C, 0x4F17, 0x53F7, 0x6587, 0x7AE0, 0x9884, 0x89C8, 0x7684, 0x43,
     0x53, 0x53, 0x4EE3, 0x7801, 0x3002, 0xA, 0x20, 0x20, 0x20, 0x48, 0x54, 0x4D,
     0x4C, 0x7ED3, 0x6784, 0x5728, 0x4E00, 0x4E2A, 0x20, 0x69, 0x64, 0x3D, 0x22, 0x70,
     0x72, 0x65, 0x76, 0x69, 0x65, 0x77, 0x2D, 0x72, 0x6F, 0x6F, 0x74, 0x22,
     0x20, 0x7684, 0x64, 0x69, 0x76, 0x4E2D, 0x3002, 0xA, 0x20, 0x20, 0x20, 0x8BF7,
     0x53EA, 0x8FD4, 0x56DE, 0x7EAF, 0x43, 0x53, 0x53, 0x4EE3, 0x7801, 0xFF0C, 0x4E0D, 0x8981,
     0x5305, 0x542B, 0x6D, 0x61, 0x72, 0x6B, 0x64, 0x6F, 0x77, 0x6E, 0x4EE3, 0x7801,
     0x5757, 0x6807, 0x8BB0, 0xFF08, 0x5982, 0x20, 0x60, 0x60, 0x60, 0x63, 0x73, 0x73,
     0x20, 0xFF09, 0x3002, 0xA, 0x20, 0x20, 0x20, 0x5FC5, 0x987B, 0x5305, 0x542B, 0x9488,
     0x5BF9, 0x20, 0x23, 0x70, 0x72, 0x65, 0x76, 0x69, 0x65, 0x77, 0x2D, 0x72,
     0x6F, 0x6F, 0x74, 0x20, 0x68, 0x31, 0x2C, 0x20, 0x68, 0x32, 0x2C, 0x20,
     0x70, 0x2C, 0x20, 0x62, 0x6C, 0x6F, 0x63, 0x6B, 0x71, 0x75, 0x6F, 0x74,
     0x65, 0x2C, 0x20, 0x69, 0x6D, 0x67, 0x2C, 0x20, 0x6C, 0x69, 0x20, 0x7684,
     0x6837, 0x5F0F, 0x3002, 0xA, 0x20, 0x20, 0x20, 0x98CE, 0x683C, 0x5FC5, 0x987B, 0x7B26,
     0x5408, 0xFF1A]"

definition persona_prompt :: jsstring where
  "persona_prompt =
     [0x4F60, 0x662F, 0x4E00, 0x4E2A, 0x4E13, 0x4E1A, 0x7684, 0x5FAE, 0x4FE1, 0x516C, 0x4F17, 0x53F7,
     0x6587, 0x7AE0, 0x7F16, 0x8F91, 0x52A9, 0x624B, 0x3002, 0x8BF7, 0x7528, 0x4E2D, 0x6587, 0x56DE,
     0x7B54, 0x3002, 0x4FDD, 0x6301, 0x56DE, 0x7B54, 0x7B80, 0x6D01, 0x3001, 0x4E13, 0x4E1A, 0x3002]"

definition chat_key_msg :: jsstring where
  "chat_key_msg =
     [0x8BF7, 0x5148, 0x5728, 0x8BBE, 0x7F6E, 0x4E2D, 0x914D, 0x7F6E] @ js '' Chat API Key''"

definition format_key_msg :: jsstring where
  "format_key_msg = [0x8BF7, 0x5148, 0x914D, 0x7F6E] @ js '' Chat API Key''"

definition image_key_msg :: jsstring where
  "image_key_msg =
     [0x8BF7, 0x5148, 0x5728, 0x8BBE, 0x7F6E, 0x4E2D, 0x914D, 0x7F6E, 0x20, 0x7ED8, 0x56FE]
       @ js '' API Key''"

definition theme_key_msg :: jsstring where
  "theme_key_msg =
     [0x8BF7, 0x5148, 0x914D, 0x7F6E] @ js '' Chat API Key ''
       @ [0x4EE5, 0x751F, 0x6210, 0x4E3B, 0x9898]"

definition no_content_msg :: jsstring where
  "no_content_msg = js ''AI '' @ [0x672A, 0x8FD4, 0x56DE, 0x5185, 0x5BB9]"

definition chat_failed_msg :: jsstring where
  "chat_failed_msg = js ''AI '' @ [0x8BF7, 0x6C42, 0x5931, 0x8D25]"

definition format_failed_msg :: jsstring where
  "format_failed_msg = [0x6392, 0x7248, 0x8BF7, 0x6C42, 0x5931, 0x8D25]"

definition no_image_msg :: jsstring where
  "no_image_msg = [0x672A, 0x751F, 0x6210, 0x56FE, 0x7247]"

definition image_failed_msg :: jsstring where
  "image_failed_msg =
     [0x56FE, 0x7247, 0x751F, 0x6210, 0x5931, 0x8D25] @ js '' (''
       @ [0x8BF7, 0x68C0, 0x67E5, 0x6A21, 0x578B, 0x6743, 0x9650] @ js ''/BaseURL)''"

text \<open>\<open>!config.apiKey\<close>\<close>

definition no_key :: "AIConfig \<Rightarrow> bool" where
  "no_key config = (or_default (apiKey config) [] = [])"

text \<open>\<open>createGeminiClient\<close> builds the client; it sends nothing.\<close>

definition createGeminiClient :: "AIConfig \<Rightarrow> genai_client" where
  "createGeminiClient config =
     \<lparr>client_apiKey = apiKey config,
      client_baseUrl = (case baseUrl config of
                          None \<Rightarrow> None
                        | Some u \<Rightarrow> if u \<noteq> [] \<and> trim u \<noteq> [] then Some u else None)\<rparr>"

text \<open>\<open>throw new Error(error.message || fallback)\<close> of the \<open>catch\<close> blocks.\<close>

definition rethrow :: "jsstring \<Rightarrow> js_error \<Rightarrow> js_error" where
  "rethrow fallback e = new_Error (if err_message e \<noteq> [] then err_message e else fallback)"

datatype role = User | Model

definition history_messages :: "(role \<times> jsstring) list \<Rightarrow> jsstring \<Rightarrow> json list" where
  "history_messages history prompt =
     map (\<lambda>(r, t). chat_message (if r = Model then js ''assistant'' else js ''user'') t) history
       @ [chat_message (js ''user'') prompt]"

definition fullContext :: "(role \<times> jsstring) list \<Rightarrow> jsstring \<Rightarrow> jsstring" where
  "fullContext history prompt =
     concat (map (\<lambda>(r, t). (if r = User then js ''User'' else js ''Model'') @ js '': '' @ t @ [0xA])
                 history)
       @ js ''User: '' @ prompt"

definition gemini_chat_model :: "AIConfig \<Rightarrow> jsstring" where
  "gemini_chat_model config = or_default (chatModel config) (js ''gemini-3-flash-preview'')"

definition generateChatResponse ::
  "platform \<Rightarrow> world \<Rightarrow> AIConfig \<Rightarrow> jsstring \<Rightarrow> (role \<times> jsstring) list \<Rightarrow> call list
     \<Rightarrow> (js_error + jsvalue) \<times> call list" where
  "generateChatResponse P W config prompt history log =
     (if no_key config then (Inl (new_Error chat_key_msg), log)
      else if provider config = OpenAI
      then callOpenAIChat P W config (history_messages history prompt) (Some persona_prompt) log
      else
        (let req = \<lparr>gc_client = createGeminiClient config,
                    gc_model = gemini_chat_model config,
                    gc_contents = Text (fullContext history prompt),
                    gc_temperature = temperature config,
                    gc_systemInstruction = Some persona_prompt,
                    gc_aspectRatio = None\<rparr> in
         case generateContent W log req of
           Inl e \<Rightarrow> (Inl (rethrow chat_failed_msg e), log @ [GenerateContent req])
         | Inr response \<Rightarrow>
             (Inr (Some (JStr (or_default (response_text response) no_content_msg))),
              log @ [GenerateContent req])))"

text \<open>The argument of \<open>ai.models.generateContent\<close> in \<open>generateFormattedContent\<close>.\<close>

definition formatting_request :: "AIConfig \<Rightarrow> jsstring \<Rightarrow> content_request" where
  "formatting_request config content =
     \<lparr>gc_client = createGeminiClient config,
      gc_model = gemini_chat_model config,
      gc_contents = Text content,
      gc_temperature = Some (JNum True (js ''0.3'')),
      gc_systemInstruction = Some formatting_prompt,
      gc_aspectRatio = None\<rparr>"

definition generateFormattedContent ::
  "platform \<Rightarrow> world \<Rightarrow> AIConfig \<Rightarrow> jsstring \<Rightarrow> call list
     \<Rightarrow> (js_error + jsvalue) \<times> call list" where
  "generateFormattedContent P W config content log =
     (if no_key config then (Inl (new_Error format_key_msg), log)
      else if provider config = OpenAI
      then callOpenAIChat P W config [chat_message (js ''user'') content]
             (Some formatting_prompt) log
      else
        (let req = formatting_request config content in
         case generateContent W log req of
           Inl e \<Rightarrow> (Inl (rethrow format_failed_msg e), log @ [GenerateContent req])
         | Inr response \<Rightarrow>
             (Inr (Some (JStr (or_default (response_text response) content))),
              log @ [GenerateContent req])))"

text \<open>The aspect ratio of the Gemini image path: the later test wins.\<close>

definition gemini_aspectRatio :: "jsstring \<Rightarrow> jsstring" where
  "gemini_aspectRatio sz =
     (let aspectRatio = js ''1:1'';
          aspectRatio = (if js_includes sz (js ''16:9'') then js ''16:9'' else aspectRatio);
          aspectRatio = (if js_includes sz (js ''4:3'') then js ''4:3'' else aspectRatio)
      in aspectRatio)"

text \<open>\<open>${v}\<close> for an optional string.\<close>

definition template_str :: "jsstring option \<Rightarrow> jsstring" where
  "template_str v = (case v of None \<Rightarrow> js ''undefined'' | Some s \<Rightarrow> s)"

text \<open>The \<open>for\<close> loop over the parts: the first one that carries inline data.\<close>

fun first_inline :: "inline_data option list \<Rightarrow> jsstring option" where
  "first_inline [] = None"
| "first_inline (part # parts) =
     (case part of
        None \<Rightarrow> first_inline parts
      | Some d \<Rightarrow>
          Some (js ''data:'' @ or_default (inl_mimeType d) (js ''image/png'')
                @ js '';base64,'' @ template_str (inl_data d)))"

text \<open>The body of the \<open>try\<close> block of the Gemini image path.\<close>

definition gemini_image_try ::
  "platform \<Rightarrow> world \<Rightarrow> AIConfig \<Rightarrow> jsstring \<Rightarrow> jsstring \<Rightarrow> call list
     \<Rightarrow> (js_error + jsstring) \<times> call list" where
  "gemini_image_try P W config prompt sz log =
     (let ai = createGeminiClient config;
          modelName = or_default (imageModel config) (js ''imagen-4.0-generate-001'');
          aspectRatio = gemini_aspectRatio sz
      in
      if js_includes (toLowerCase P modelName) (js ''imagen'')
      then
        (let req = \<lparr>gi_client = ai, gi_model = modelName, gi_prompt = prompt,
                    gi_numberOfImages = 1, gi_aspectRatio = aspectRatio,
                    gi_outputMimeType = js ''image/jpeg''\<rparr> in
         case generateImages W log req of
           Inl e \<Rightarrow> (Inl e, log @ [GenerateImages req])
         | Inr response \<Rightarrow>
             (case generatedImages response of
                None \<Rightarrow> (Inl (new_Error no_image_msg), log @ [GenerateImages req])
              | Some [] \<Rightarrow> (Inl (new_Error no_image_msg), log @ [GenerateImages req])
              | Some (None # _) \<Rightarrow>
                  (Inl (type_error P (NullishRead None (js ''imageBytes''))),
                   log @ [GenerateImages req])
              | Some (Some imageBytes # _) \<Rightarrow>
                  (Inr (js ''data:image/jpeg;base64,'' @ template_str imageBytes),
                   log @ [GenerateImages req])))
      else
        (let req = \<lparr>gc_client = ai, gc_model = modelName, gc_contents = Parts [prompt],
                    gc_temperature = None, gc_systemInstruction = None,
                    gc_aspectRatio = Some aspectRatio\<rparr> in
         case generateContent W log req of
           Inl e \<Rightarrow> (Inl e, log @ [GenerateContent req])
         | Inr response \<Rightarrow>
             (case candidates response of
                Some (Some parts # _) \<Rightarrow>
                  (case first_inline parts of
                     Some uri \<Rightarrow> (Inr uri, log @ [GenerateContent req])
                   | None \<Rightarrow> (Inl (new_Error no_image_msg), log @ [GenerateContent req]))
              | _ \<Rightarrow> (Inl (new_Error no_image_msg), log @ [GenerateContent req]))))"

definition generateImage ::
  "platform \<Rightarrow> world \<Rightarrow> AIConfig \<Rightarrow> jsstring \<Rightarrow> jsstring \<Rightarrow> call list
     \<Rightarrow> (js_error + jsvalue) \<times> call list" where
  "generateImage P W config prompt sz log =
     (if no_key config then (Inl (new_Error image_key_msg), log)
      else if provider config = OpenAI then callOpenAIImage P W config prompt sz log
      else
        (case gemini_image_try P W config prompt sz log of
           (Inl e, log') \<Rightarrow> (Inl (rethrow image_failed_msg e), log')
         | (Inr uri, log') \<Rightarrow> (Inr (Some (JStr uri)), log')))"

text \<open>\<open>css.replace(/```css/g, '').replace(/```/g, '')\<close>, then \<open>trim\<close>.\<close>

definition strip_fences :: "jsstring \<Rightarrow> jsstring" where
  "strip_fences css = trim (remove_all (js ''```'') (remove_all (js ''```css'') css))"

definition generateThemeCSS ::
  "platform \<Rightarrow> world \<Rightarrow> AIConfig \<Rightarrow> jsstring \<Rightarrow> call list
     \<Rightarrow> (js_error + jsstring) \<times> call list" where
  "generateThemeCSS P W config prompt log =
     (if no_key config then (Inl (new_Error theme_key_msg), log)
      else
        (let systemPrompt = theme_prompt_head @ prompt in
         if provider config = OpenAI
         then
           (case callOpenAIChat P W config [chat_message (js ''user'') prompt]
                   (Some systemPrompt) log of
              (Inl e, log') \<Rightarrow> (Inl e, log')
            | (Inr css, log') \<Rightarrow>
                (case css of
                   Some (JStr s) \<Rightarrow> (Inr (strip_fences s), log')
                 | _ \<Rightarrow> (Inl (type_error P (NotAFunction (js ''css.replace'') css)), log')))
         else
           (let req = \<lparr>gc_client = createGeminiClient config,
                       gc_model = gemini_chat_model config,
                       gc_contents = Text prompt,
                       gc_temperature = Some (JNum True (js ''0.7'')),
                       gc_systemInstruction = Some systemPrompt,
                       gc_aspectRatio = None\<rparr> in
            case generateContent W log req of
              Inl e \<Rightarrow> (Inl e, log @ [GenerateContent req])
            | Inr response \<Rightarrow>
                (Inr (strip_fences (or_default (response_text response) [])),
                 log @ [GenerateContent req]))))"

section \<open>Notions used in the theorems\<close>

text \<open>
  A comparator is consistent when \<open>cmp a b \<le> 0\<close> is a total preorder; only then does
  the language fix what \<open>sort\<close> returns.
\<close>

definition consistent :: "('a \<Rightarrow> 'a \<Rightarrow> int) \<Rightarrow> bool" where
  "consistent cmp = ((\<forall>a b. cmp a b \<le> 0 \<or> cmp b a \<le> 0)
                     \<and> (\<forall>a b c. cmp a b \<le> 0 \<and> cmp b c \<le> 0 \<longrightarrow> cmp a c \<le> 0))"

text \<open>
  The cascade as the specification words it: an ordered list of (endpoint, auth mode)
  candidates, tried one after the other, the first success returned.
\<close>

definition candidates :: "jsstring list \<Rightarrow> (jsstring \<times> auth_mode) list" where
  "candidates endpoints = concat (map (\<lambda>e. [(e, ByQuery), (e, ByHeader)]) endpoints)"



text \<open>
  What one fetch contributed to the accumulated list, read off the world's answer, and
  the contributions of a run of fetches issued from a given log onwards.
\<close>

definition page_of :: "platform \<Rightarrow> js_error + response \<Rightarrow> jsstring list" where
  "page_of P res =
     (case res of
        Inl e \<Rightarrow> []
      | Inr r \<Rightarrow>
          (case json_body r of
             Inl e \<Rightarrow> []
           | Inr data \<Rightarrow> (case page_models P data of Inl e \<Rightarrow> [] | Inr pm \<Rightarrow> pm)))"

fun pages_of :: "platform \<Rightarrow> world \<Rightarrow> call list \<Rightarrow> request list \<Rightarrow> jsstring list list" where
  "pages_of P W log [] = []"
| "pages_of P W log (req # reqs) =
     page_of P (fetch W log req) # pages_of P W (log @ [Fetch req]) reqs"


text \<open>The names a response body serves, as the provider wrote them.\<close>

definition name_of :: "json \<Rightarrow> jsstring list" where
  "name_of m = (case get_opt (Some m) (js ''name'') of Some (JStr n) \<Rightarrow> [n] | _ \<Rightarrow> [])"

definition served_names :: "json \<Rightarrow> jsstring list" where
  "served_names data =
     (case get_opt (Some data) (js ''models'') of
        Some (JArr ms) \<Rightarrow> concat (map name_of ms)
      | _ \<Rightarrow> [])"

text \<open>
  The names the world served in answer to a run of fetches issued from a given log
  onwards, one list for each fetch.
\<close>

definition body_names :: "js_error + response \<Rightarrow> jsstring list" where
  "body_names res =
     (case res of
        Inl e \<Rightarrow> []
      | Inr r \<Rightarrow> (case json_body r of Inl e \<Rightarrow> [] | Inr data \<Rightarrow> served_names data))"

fun names_served :: "world \<Rightarrow> call list \<Rightarrow> request list \<Rightarrow> jsstring list list" where
  "names_served W log [] = []"
| "names_served W log (req # reqs) =
     body_names (fetch W log req) # names_served W (log @ [Fetch req]) reqs"

text \<open>
  A name with its leading \<open>models/\<close> segment stripped if present, as the specification
  words it: the seven code units are cut off when they are the ones the name starts with.
\<close>

definition without_models_prefix :: "jsstring \<Rightarrow> jsstring" where
  "without_models_prefix n = (if take 7 n = js ''models/'' then drop 7 n else n)"

section \<open>A reference platform and sample worlds\<close>

text \<open>
  A platform to run examples on: strings compared by code units, \<open>encodeURIComponent\<close>
  as ECMA-262 defines it, case folding of ASCII letters.
\<close>

definition codeunit_compare :: "jsstring \<Rightarrow> jsstring \<Rightarrow> int" where
  "codeunit_compare a b = (if a < b then - 1 else if a = b then 0 else 1)"

definition unreserved :: "16 word \<Rightarrow> bool" where
  "unreserved c = ((0x41 \<le> c \<and> c \<le> 0x5A) \<or> (0x61 \<le> c \<and> c \<le> 0x7A) \<or> (0x30 \<le> c \<and> c \<le> 0x39)
                   \<or> c \<in> set (js ''-_.!~*'' @ [0x27] @ js ''()''))"

definition hex_digit :: "nat \<Rightarrow> 16 word" where
  "hex_digit n = (if n < 10 then of_nat (48 + n) else of_nat (55 + n))"

definition percent :: "nat \<Rightarrow> jsstring" where
  "percent b = [0x25, hex_digit (b div 16), hex_digit (b mod 16)]"

definition utf8 :: "nat \<Rightarrow> nat list" where
  "utf8 cp =
     (if cp < 0x80 then [cp]
      else if cp < 0x800 then [0xC0 + cp div 64, 0x80 + cp mod 64]
      else if cp < 0x10000 then [0xE0 + cp div 4096, 0x80 + (cp div 64) mod 64, 0x80 + cp mod 64]
      else [0xF0 + cp div 262144, 0x80 + (cp div 4096) mod 64, 0x80 + (cp div 64) mod 64,
            0x80 + cp mod 64])"

definition uri_error :: js_error where
  "uri_error = JsError (js ''URIError'') (js ''URI malformed'')"

fun uri_encode :: "jsstring \<Rightarrow> js_error + jsstring" where
  "uri_encode [] = Inr []"
| "uri_encode [c] =
     (if unreserved c then Inr [c]
      else if 0xD800 \<le> c \<and> c \<le> 0xDFFF then Inl uri_error
      else Inr (concat (map percent (utf8 (unat c)))))"
| "uri_encode (c # d # ds) =
     (if unreserved c then map_sum id ((#) c) (uri_encode (d # ds))
      else if 0xDC00 \<le> c \<and> c \<le> 0xDFFF then Inl uri_error
      else if 0xD800 \<le> c \<and> c \<le> 0xDBFF
      then (if 0xDC00 \<le> d \<and> d \<le> 0xDFFF
            then map_sum id
                   ((@) (concat (map percent
                      (utf8 ((unat c - 0xD800) * 0x400 + (unat d - 0xDC00) + 0x10000)))))
                   (uri_encode ds)
            else Inl uri_error)
      else map_sum id ((@) (concat (map percent (utf8 (unat c))))) (uri_encode (d # ds)))"

text \<open>The wording of one engine, with the limit of another on spread calls.\<close>

definition reference_message :: "fault \<Rightarrow> jsstring" where
  "reference_message f =
     (case f of
        NullishRead v k \<Rightarrow>
          js ''Cannot read properties of '' @ template v @ js '' (reading '' @ [0x27] @ k
            @ [0x27] @ js '')''
      | NotAFunction callee v \<Rightarrow> callee @ js '' is not a function''
      | TooManyArguments n \<Rightarrow> js ''Maximum call stack size exceeded'')"

definition reference_platform :: platform where
  "reference_platform =
     \<lparr>localeCompare = codeunit_compare,
      encodeURIComponent = uri_encode,
      toLowerCase = map ascii_lower,
      engineMessage = reference_message,
      maxArguments = 65536\<rparr>"

definition offline :: js_error where
  "offline = JsError (js ''TypeError'') (js ''Failed to fetch'')"

definition fetch_world :: "(call list \<Rightarrow> request \<Rightarrow> js_error + response) \<Rightarrow> world" where
  "fetch_world f =
     \<lparr>fetch = f, generateContent = (\<lambda>log req. Inl offline),
      generateImages = (\<lambda>log req. Inl offline)\<rparr>"

definition gemini_config :: AIConfig where
  "gemini_config =
     \<lparr>provider = Gemini, apiKey = Some (js ''k''), baseUrl = None, chatModel = None,
      imageModel = None, temperature = None\<rparr>"

definition forbidden :: response where
  "forbidden = \<lparr>status = 403, statusText = js ''Forbidden'',
                 json_body = Inl (JsError (js ''SyntaxError'') (js ''Unexpected end of JSON input''))\<rparr>"

definition models_page :: "jsstring list \<Rightarrow> response" where
  "models_page names =
     \<lparr>status = 200, statusText = js ''OK'',
      json_body = Inr (JObj [(js ''models'', JArr (map (\<lambda>n. JObj [(js ''name'', JStr n)]) names))])\<rparr>"

definition header_only_world :: world where
  "header_only_world =
     fetch_world (\<lambda>log req. if req_headers req = [] then Inr forbidden
                              else Inr (models_page [js ''models/gemini-pro'']))"






text \<open>A provider that nests the prefix.\<close>

definition nested_prefix_world :: world where
  "nested_prefix_world = fetch_world (\<lambda>log req. Inr (models_page [js ''models/models/x'']))"

text \<open>Configurations and worlds of the OpenAI-compatible scenarios.\<close>

definition openai_config :: AIConfig where
  "openai_config =
     \<lparr>provider = OpenAI, apiKey = Some (js ''k''), baseUrl = None, chatModel = None,
      imageModel = None, temperature = None\<rparr>"

definition empty_key_config :: AIConfig where
  "empty_key_config =
     \<lparr>provider = OpenAI, apiKey = Some [], baseUrl = None, chatModel = None,
      imageModel = None, temperature = None\<rparr>"

definition quota_response :: response where
  "quota_response =
     \<lparr>status = 429, statusText = js ''Too Many Requests'',
      json_body = Inr (JObj [(js ''error'', JObj [(js ''message'', JStr (js ''quota exceeded''))])])\<rparr>"

definition quota_world :: world where
  "quota_world = fetch_world (\<lambda>log req. Inr quota_response)"

definition offline_world :: world where
  "offline_world = fetch_world (\<lambda>log req. Inl offline)"

definition empty_entry_world :: world where
  "empty_entry_world =
     fetch_world (\<lambda>log req. Inr \<lparr>status = 200, statusText = js ''OK'',
                                     json_body = Inr (JObj [(js ''data'', JArr [JObj []])])\<rparr>)"

text \<open>A Gemini library that answers every content request with no text.\<close>

definition silent_world :: world where
  "silent_world =
     \<lparr>fetch = (\<lambda>log req. Inl offline),
      generateContent = (\<lambda>log req. Inr \<lparr>response_text = None, candidates = None\<rparr>),
      generateImages = (\<lambda>log req. Inl offline)\<rparr>"
section \<open>Deduplication and sorting\<close>

lemma set_foldl_set_add: "set (foldl set_add acc xs) = set acc \<union> set xs"
  by (induction xs arbitrary: acc) (auto simp: set_add_def)

lemma distinct_foldl_set_add: "distinct acc \<Longrightarrow> distinct (foldl set_add acc xs)"
  by (induction xs arbitrary: acc) (auto simp: set_add_def)

lemma set_new_Set: "set (new_Set xs) = set xs"
  by (simp add: new_Set_def set_foldl_set_add)

lemma distinct_new_Set: "distinct (new_Set xs)"
  by (simp add: new_Set_def distinct_foldl_set_add)

lemma set_insort_cmp: "set (insort_cmp cmp x ys) = insert x (set ys)"
  by (induction ys) auto

lemma distinct_insort_cmp: "distinct (insort_cmp cmp x ys) = (x \<notin> set ys \<and> distinct ys)"
  by (induction ys) (auto simp: set_insort_cmp)

lemma consistent_total: "consistent cmp \<Longrightarrow> cmp a b \<le> 0 \<or> cmp b a \<le> 0"
  unfolding consistent_def by blast

lemma consistent_trans:
  "consistent cmp \<Longrightarrow> cmp a b \<le> 0 \<Longrightarrow> cmp b c \<le> 0 \<Longrightarrow> cmp a c \<le> 0"
  unfolding consistent_def by blast

lemma sorted_insort_cmp:
  assumes "consistent cmp" and "sorted_wrt (\<lambda>a b. cmp a b \<le> 0) ys"
  shows "sorted_wrt (\<lambda>a b. cmp a b \<le> 0) (insort_cmp cmp x ys)"
  using assms(2)
proof (induction ys)
  case Nil
  then show ?case by simp
next
  case (Cons y ys)
  have below: "\<forall>z\<in>set ys. cmp y z \<le> 0" using Cons.prems by simp
  have tail: "sorted_wrt (\<lambda>a b. cmp a b \<le> 0) ys" using Cons.prems by simp
  show ?case
  proof (cases "cmp x y \<le> 0")
    case True
    have "\<forall>z\<in>set ys. cmp x z \<le> 0"
    proof
      fix z assume "z \<in> set ys"
      with below have "cmp y z \<le> 0" by simp
      with True show "cmp x z \<le> 0" by (rule consistent_trans[OF assms(1)])
    qed
    with True below tail show ?thesis by simp
  next
    case False
    then have "cmp y x \<le> 0" using consistent_total[OF assms(1), of x y] by simp
    moreover have "sorted_wrt (\<lambda>a b. cmp a b \<le> 0) (insort_cmp cmp x ys)"
      using Cons.IH tail by simp
    ultimately show ?thesis using False below by (simp add: set_insort_cmp)
  qed
qed

lemma set_js_sort: "set (js_sort cmp xs) = set xs"
  by (induction xs) (auto simp: js_sort_def set_insort_cmp)

lemma distinct_js_sort: "distinct (js_sort cmp xs) = distinct xs"
  by (induction xs) (auto simp: js_sort_def distinct_insort_cmp set_js_sort[unfolded js_sort_def])

lemma sorted_js_sort:
  "consistent cmp \<Longrightarrow> sorted_wrt (\<lambda>a b. cmp a b \<le> 0) (js_sort cmp xs)"
  by (induction xs) (auto simp: js_sort_def sorted_insort_cmp)

lemma set_dedupeAndSort:
  "set (dedupeAndSort P models) = {trim m | m. m \<in> set models \<and> trim m \<noteq> []}"
  by (auto simp: dedupeAndSort_def set_js_sort set_new_Set)

lemma distinct_dedupeAndSort: "distinct (dedupeAndSort P models)"
  by (simp add: dedupeAndSort_def distinct_js_sort distinct_new_Set)

text \<open>
  Claim C7.  For every list of strings, \<open>dedupeAndSort\<close> returns exactly the entries
  that are non-empty after trimming, trimmed, each once (entries are compared as they
  stand, so case matters), and in ascending order of the locale comparison whenever that
  comparison is a consistent comparator.
\<close>

theorem dedupeAndSort_spec:
  "set (dedupeAndSort P models) = {trim m | m. m \<in> set models \<and> trim m \<noteq> []}
   \<and> distinct (dedupeAndSort P models)
   \<and> (consistent (localeCompare P)
        \<longrightarrow> sorted_wrt (\<lambda>a b. localeCompare P a b \<le> 0) (dedupeAndSort P models))"
proof (intro conjI impI)
  show "set (dedupeAndSort P models) = {trim m | m. m \<in> set models \<and> trim m \<noteq> []}"
    by (rule set_dedupeAndSort)
  show "distinct (dedupeAndSort P models)"
    by (rule distinct_dedupeAndSort)
  show "sorted_wrt (\<lambda>a b. localeCompare P a b \<le> 0) (dedupeAndSort P models)"
    if "consistent (localeCompare P)"
    unfolding dedupeAndSort_def using that by (rule sorted_js_sort)
qed


lemma codeunit_compare_le: "codeunit_compare a b \<le> 0 \<longleftrightarrow> a \<le> b"
  by (auto simp: codeunit_compare_def)

lemma consistent_codeunit_compare: "consistent codeunit_compare"
  unfolding consistent_def codeunit_compare_le by auto

theorem dedupeAndSort_spec_witness:
  "consistent (localeCompare reference_platform)
   \<and> dedupeAndSort reference_platform [js '' b'', js ''a '', js ''b'', js '' '', js ''B'']
       = [js ''B'', js ''a'', js ''b'']
   \<and> sorted_wrt (\<lambda>a b. localeCompare reference_platform a b \<le> 0)
         (dedupeAndSort reference_platform [js '' b'', js ''a '', js ''b'', js '' '', js ''B''])"
proof -
  have c: "consistent (localeCompare reference_platform)"
    by (simp add: reference_platform_def consistent_codeunit_compare)
  have e: "dedupeAndSort reference_platform [js '' b'', js ''a '', js ''b'', js '' '', js ''B'']
       = [js ''B'', js ''a'', js ''b'']"
    by (simp add: dedupeAndSort_def js_sort_def new_Set_def set_add_def trim_def is_ws_def
        js_def reference_platform_def codeunit_compare_def)
  from dedupeAndSort_spec[of reference_platform
         "[js '' b'', js ''a '', js ''b'', js '' '', js ''B'']"] c e
  show ?thesis by simp
qed


section \<open>The discovery cascade\<close>



lemma attempt_Inr:
  "attempt P W mode endpoint key log = (Inr models, log') \<Longrightarrow>
   \<exists>raw. paginate P W mode endpoint key 0 [] None log = (Inr raw, log')
         \<and> models = dedupeAndSort P raw"
  by (auto simp: attempt_def split: prod.splits sum.splits)


lemmas run_defs = listModels_def gemini_endpoints_def gemini_customBase_def
  attempt_def paginate.simps page_request_def withSearchParams_def reference_platform_def
  fetch_world_def ok_def page_models_def js_or_def stripGeminiModelPrefix_def
  dedupeAndSort_def js_sort_def new_Set_def set_add_def trim_def is_ws_def unreserved_def
  js_def gemini_default_endpoint_def



section \<open>Pagination\<close>

lemma paginate_cases [case_names stop no_request failed last more]:
  obtains
    "guard + 1 > 20 \<or> length models > 500"
    "paginate P W mode endpoint key guard models tok log = (Inr models, log)"
  | e where
    "\<not> (guard + 1 > 20 \<or> length models > 500)"
    "paginate P W mode endpoint key guard models tok log = (Inl e, log)"
  | req e where
    "\<not> (guard + 1 > 20 \<or> length models > 500)"
    "page_request P mode endpoint key tok = Inr req"
    "paginate P W mode endpoint key guard models tok log = (Inl e, log @ [Fetch req])"
  | req r data pm where
    "\<not> (guard + 1 > 20 \<or> length models > 500)"
    "page_request P mode endpoint key tok = Inr req"
    "fetch W log req = Inr r" "ok r" "json_body r = Inr data" "page_models P data = Inr pm"
    "length pm \<le> maxArguments P"
    "\<not> truthy (get_opt (Some data) (js ''nextPageToken''))"
    "paginate P W mode endpoint key guard models tok log = (Inr (models @ pm), log @ [Fetch req])"
  | req r data pm where
    "\<not> (guard + 1 > 20 \<or> length models > 500)"
    "page_request P mode endpoint key tok = Inr req"
    "fetch W log req = Inr r" "ok r" "json_body r = Inr data" "page_models P data = Inr pm"
    "length pm \<le> maxArguments P"
    "truthy (get_opt (Some data) (js ''nextPageToken''))"
    "paginate P W mode endpoint key guard models tok log =
       paginate P W mode endpoint key (guard + 1) (models @ pm)
         (get_opt (Some data) (js ''nextPageToken'')) (log @ [Fetch req])"
proof (cases "guard + 1 > 20 \<or> length models > 500")
  case True
  then show ?thesis using that(1) by (simp add: paginate.simps)
next
  case go: False
  show ?thesis
  proof (cases "page_request P mode endpoint key tok")
    case (Inl e)
    with go show ?thesis using that(2) by (simp add: paginate.simps)
  next
    case req: (Inr req)
    show ?thesis
    proof (cases "fetch W log req")
      case (Inl e)
      with go req show ?thesis using that(3) by (simp add: paginate.simps)
    next
      case r: (Inr r)
      show ?thesis
      proof (cases "ok r")
        case False
        with go req r show ?thesis using that(3) by (simp add: paginate.simps)
      next
        case okr: True
        show ?thesis
        proof (cases "json_body r")
          case (Inl e)
          with go req r okr show ?thesis using that(3) by (simp add: paginate.simps)
        next
          case data: (Inr data)
          show ?thesis
          proof (cases "page_models P data")
            case (Inl e)
            with go req r okr data show ?thesis using that(3) by (simp add: paginate.simps)
          next
            case pm: (Inr pm)
            show ?thesis
            proof (cases "length pm \<le> maxArguments P")
              case False
              with go req r okr data pm show ?thesis using that(3)
                by (simp add: paginate.simps)
            next
              case fits: True
              show ?thesis
              proof (cases "truthy (get_opt (Some data) (js ''nextPageToken''))")
                case True
                have "paginate P W mode endpoint key guard models tok log =
                        paginate P W mode endpoint key (guard + 1) (models @ pm)
                          (get_opt (Some data) (js ''nextPageToken'')) (log @ [Fetch req])"
                  using go req r okr data pm fits True
                  by (subst paginate.simps) simp
                with go req r okr data pm fits True show ?thesis using that(5) by blast
              next
                case False
                have "paginate P W mode endpoint key guard models tok log =
                        (Inr (models @ pm), log @ [Fetch req])"
                  using go req r okr data pm fits False
                  by (subst paginate.simps) simp
                with go req r okr data pm fits False show ?thesis using that(4) by blast
              qed
            qed
          qed
        qed
      qed
    qed
  qed
qed

lemma length_pages_of: "length (pages_of P W log reqs) = length reqs"
  by (induction reqs arbitrary: log) simp_all

lemma page_of_ok:
  "fetch W log req = Inr r \<Longrightarrow> json_body r = Inr data \<Longrightarrow> page_models P data = Inr pm \<Longrightarrow>
   page_of P (fetch W log req) = pm"
  by (simp add: page_of_def)

lemma paginate_run:
  "paginate P W mode endpoint key guard models tok log = (res, log') \<Longrightarrow>
   \<exists>reqs. log' = log @ map Fetch reqs \<and> length reqs \<le> 20 - guard
        \<and> (reqs \<noteq> [] \<longrightarrow>
              length (models @ concat (butlast (pages_of P W log reqs))) \<le> 500)
        \<and> (\<forall>raw. res = Inr raw \<longrightarrow> raw = models @ concat (pages_of P W log reqs))"
proof (induction "20 - guard" arbitrary: guard models tok log rule: less_induct)
  case less
  show ?case
  proof (cases rule: paginate_cases[of guard models P W mode endpoint key tok log])
    case stop
    with less.prems show ?thesis by (intro exI[of _ "[]"]) auto
  next
    case (no_request e)
    with less.prems show ?thesis by (intro exI[of _ "[]"]) auto
  next
    case (failed req e)
    with less.prems show ?thesis by (intro exI[of _ "[req]"]) auto
  next
    case (last req r data pm)
    have "page_of P (fetch W log req) = pm"
      using last(3,5,6) by (rule page_of_ok)
    with last less.prems show ?thesis by (intro exI[of _ "[req]"]) auto
  next
    case (more req r data pm)
    have pg: "page_of P (fetch W log req) = pm"
      using more(3,5,6) by (rule page_of_ok)
    from more(1) have lt: "20 - (guard + 1) < 20 - guard" by arith
    from more(9) less.prems
    have "paginate P W mode endpoint key (guard + 1) (models @ pm)
            (get_opt (Some data) (js ''nextPageToken'')) (log @ [Fetch req]) = (res, log')"
      by simp
    from less.hyps[OF lt this]
    obtain reqs where rs: "log' = (log @ [Fetch req]) @ map Fetch reqs"
      "length reqs \<le> 20 - (guard + 1)"
      "reqs \<noteq> [] \<longrightarrow>
         length ((models @ pm)
                   @ concat (butlast (pages_of P W (log @ [Fetch req]) reqs))) \<le> 500"
      "\<forall>raw. res = Inr raw \<longrightarrow>
               raw = (models @ pm) @ concat (pages_of P W (log @ [Fetch req]) reqs)"
      by blast
    have nonempty: "pages_of P W (log @ [Fetch req]) reqs = [] \<longleftrightarrow> reqs = []"
      using length_pages_of[of P W "log @ [Fetch req]" reqs] by (cases reqs) auto
    show ?thesis
    proof (intro exI[of _ "req # reqs"] conjI allI impI)
      show "log' = log @ map Fetch (req # reqs)" using rs(1) by simp
      show "length (req # reqs) \<le> 20 - guard" using rs(2) more(1) by (simp, arith)
    next
      fix raw assume "res = Inr raw"
      with rs(4) show "raw = models @ concat (pages_of P W log (req # reqs))"
        using pg by simp
    next
      show "length (models @ concat (butlast (pages_of P W log (req # reqs)))) \<le> 500"
      proof (cases "reqs = []")
        case True
        then show ?thesis using more(1) by simp
      next
        case False
        with rs(3) nonempty show ?thesis using pg by simp
      qed
    qed
  qed
qed


lemma attempt_fst_snd:
  "fst (attempt P W mode endpoint key log) =
     map_sum id (dedupeAndSort P) (fst (paginate P W mode endpoint key 0 [] None log))"
  "snd (attempt P W mode endpoint key log) = snd (paginate P W mode endpoint key 0 [] None log)"
  by (simp_all add: attempt_def split: prod.splits sum.splits)




















section \<open>The prefix of Gemini model names\<close>

lemma trim_prefix_dropWhile: "prefix (trim s) (dropWhile is_ws s)"
proof -
  let ?t = "dropWhile is_ws s"
  have "rev ?t = takeWhile is_ws (rev ?t) @ dropWhile is_ws (rev ?t)" by simp
  then have "?t = rev (dropWhile is_ws (rev ?t)) @ rev (takeWhile is_ws (rev ?t))"
    by (metis rev_append rev_rev_ident)
  then show ?thesis unfolding trim_def by (metis prefixI)
qed

lemma trim_Nil: "trim [] = []"
  by (simp add: trim_def)

text \<open>The code's \<open>replace(/^models\//, '')\<close> is the stripping the specification words.\<close>

lemma stripGeminiModelPrefix_spec: "stripGeminiModelPrefix n = without_models_prefix n"
proof -
  have len: "length (js ''models/'') = 7" by (simp add: js_def)
  have "prefix (js ''models/'') n \<longleftrightarrow> take 7 n = js ''models/''"
  proof
    assume "prefix (js ''models/'') n"
    then obtain r where "n = js ''models/'' @ r" by (auto simp: prefix_def)
    then show "take 7 n = js ''models/''" using len by simp
  next
    assume "take 7 n = js ''models/''"
    then have "n = js ''models/'' @ drop 7 n" by (metis append_take_drop_id)
    then show "prefix (js ''models/'') n" by (metis prefixI)
  qed
  then show ?thesis by (simp add: stripGeminiModelPrefix_def without_models_prefix_def)
qed

lemma strip_names_set:
  "strip_names P ms = Inr names \<Longrightarrow>
   set (filter (\<lambda>n. n \<noteq> []) names)
     = {stripGeminiModelPrefix n | n. n \<in> set (concat (map name_of ms))
                                     \<and> stripGeminiModelPrefix n \<noteq> []}"
proof (induction ms arbitrary: names)
  case Nil
  then show ?case by simp
next
  case (Cons m ms)
  from Cons.prems obtain n rest where
    n: "js_or (get_opt (Some m) (js ''name'')) (Some (JStr [])) = Some (JStr n)"
    and rest: "strip_names P ms = Inr rest"
    and names: "names = stripGeminiModelPrefix n # rest"
    by (auto split: option.splits json.splits sum.splits)
  have empty: "stripGeminiModelPrefix [] = []" by (simp add: stripGeminiModelPrefix_def)
  have head: "{stripGeminiModelPrefix x | x. x \<in> set (name_of m) \<and> stripGeminiModelPrefix x \<noteq> []}
              = set (filter (\<lambda>n. n \<noteq> []) [stripGeminiModelPrefix n])"
  proof (cases "truthy (get_opt (Some m) (js ''name''))")
    case True
    with n have "get_opt (Some m) (js ''name'') = Some (JStr n)" by (simp add: js_or_def)
    then have "name_of m = [n]" by (simp add: name_of_def)
    then show ?thesis by auto
  next
    case False
    with n have n0: "n = []" by (simp add: js_or_def)
    have "name_of m = [] \<or> name_of m = [[]]"
      using False by (cases "get_opt (Some m) (js ''name'')" rule: truthy.cases)
        (auto simp: name_of_def)
    with n0 empty show ?thesis by auto
  qed
  have "set (filter (\<lambda>n. n \<noteq> []) names)
        = set (filter (\<lambda>n. n \<noteq> []) [stripGeminiModelPrefix n])
          \<union> set (filter (\<lambda>n. n \<noteq> []) rest)"
    unfolding names by auto
  also have "\<dots> = {stripGeminiModelPrefix x | x. x \<in> set (name_of m)
                                              \<and> stripGeminiModelPrefix x \<noteq> []}
                   \<union> {stripGeminiModelPrefix x | x. x \<in> set (concat (map name_of ms))
                                                \<and> stripGeminiModelPrefix x \<noteq> []}"
    unfolding head Cons.IH[OF rest] ..
  also have "\<dots> = {stripGeminiModelPrefix x | x. x \<in> set (concat (map name_of (m # ms)))
                                              \<and> stripGeminiModelPrefix x \<noteq> []}"
    by auto
  finally show ?case .
qed

lemma page_models_set:
  assumes "page_models P data = Inr pm"
  shows "set pm = {stripGeminiModelPrefix n | n. n \<in> set (served_names data)
                                               \<and> stripGeminiModelPrefix n \<noteq> []}"
proof (cases "truthy (get_opt (Some data) (js ''models''))")
  case True
  with assms obtain ms names where
    ms: "get_opt (Some data) (js ''models'') = Some (JArr ms)"
    and names: "strip_names P ms = Inr names" and pm: "pm = filter (\<lambda>n. n \<noteq> []) names"
    by (auto simp: page_models_def js_or_def split: option.splits json.splits sum.splits)
  from strip_names_set[OF names] show ?thesis
    unfolding pm by (simp add: served_names_def ms)
next
  case False
  then have "served_names data = []"
    by (cases "get_opt (Some data) (js ''models'')" rule: truthy.cases)
      (auto simp: served_names_def)
  moreover from False assms have "pm = []" by (auto simp: page_models_def js_or_def)
  ultimately show ?thesis by simp
qed

lemma body_names_ok:
  "fetch W log req = Inr r \<Longrightarrow> json_body r = Inr data \<Longrightarrow>
   body_names (fetch W log req) = served_names data"
  by (simp add: body_names_def)

lemma paginate_served:
  "paginate P W mode endpoint key guard models tok log = (Inr raw, log') \<Longrightarrow>
   \<exists>reqs. log' = log @ map Fetch reqs
        \<and> set raw = set models
            \<union> {stripGeminiModelPrefix n | n. n \<in> set (concat (names_served W log reqs))
                                            \<and> stripGeminiModelPrefix n \<noteq> []}"
proof (induction "20 - guard" arbitrary: guard models tok log rule: less_induct)
  case less
  show ?case
  proof (cases rule: paginate_cases[of guard models P W mode endpoint key tok log])
    case stop
    with less.prems show ?thesis by (intro exI[of _ "[]"]) auto
  next
    case (no_request e)
    with less.prems show ?thesis by simp
  next
    case (failed req e)
    with less.prems show ?thesis by simp
  next
    case (last req r data pm)
    from last(9) less.prems have raw: "raw = models @ pm" "log' = log @ [Fetch req]" by simp_all
    show ?thesis
      by (intro exI[of _ "[req]"])
         (simp add: raw body_names_ok[OF last(3,5)] page_models_set[OF last(6)])
  next
    case (more req r data pm)
    from more(1) have lt: "20 - (guard + 1) < 20 - guard" by arith
    from more(9) less.prems
    have "paginate P W mode endpoint key (guard + 1) (models @ pm)
            (get_opt (Some data) (js ''nextPageToken'')) (log @ [Fetch req]) = (Inr raw, log')"
      by simp
    from less.hyps[OF lt this]
    obtain reqs where rs: "log' = (log @ [Fetch req]) @ map Fetch reqs"
      "set raw = set (models @ pm)
         \<union> {stripGeminiModelPrefix n | n.
              n \<in> set (concat (names_served W (log @ [Fetch req]) reqs))
              \<and> stripGeminiModelPrefix n \<noteq> []}"
      by blast
    show ?thesis
    proof (intro exI[of _ "req # reqs"] conjI)
      show "log' = log @ map Fetch (req # reqs)" using rs(1) by simp
      show "set raw = set models
              \<union> {stripGeminiModelPrefix n | n.
                   n \<in> set (concat (names_served W log (req # reqs)))
                   \<and> stripGeminiModelPrefix n \<noteq> []}"
        unfolding rs(2)
        by (auto simp: body_names_ok[OF more(3,5)] page_models_set[OF more(6)])
    qed
  qed
qed

lemma attempt_served:
  assumes "attempt P W mode endpoint key log = (Inr ms, log')"
  shows "\<exists>reqs. log' = log @ map Fetch reqs
        \<and> set ms = {trim (without_models_prefix n) | n.
                      n \<in> set (concat (names_served W log reqs))
                      \<and> trim (without_models_prefix n) \<noteq> []}"
proof -
  from attempt_Inr[OF assms] obtain raw where
    raw: "paginate P W mode endpoint key 0 [] None log = (Inr raw, log')"
    and ms: "ms = dedupeAndSort P raw" by blast
  from paginate_served[OF raw] obtain reqs where
    rs: "log' = log @ map Fetch reqs"
        "set raw = {stripGeminiModelPrefix n | n. n \<in> set (concat (names_served W log reqs))
                                              \<and> stripGeminiModelPrefix n \<noteq> []}"
    by auto
  have "set ms = {trim s | s. s \<in> set raw \<and> trim s \<noteq> []}"
    unfolding ms by (rule set_dedupeAndSort)
  also have "\<dots> = {trim (without_models_prefix n) | n.
                      n \<in> set (concat (names_served W log reqs))
                      \<and> trim (without_models_prefix n) \<noteq> []}"
  proof (intro equalityI subsetI)
    fix x assume "x \<in> {trim s | s. s \<in> set raw \<and> trim s \<noteq> []}"
    then obtain n where "n \<in> set (concat (names_served W log reqs))"
      "x = trim (without_models_prefix n)" "trim (without_models_prefix n) \<noteq> []"
      unfolding rs(2) stripGeminiModelPrefix_spec by blast
    then show "x \<in> {trim (without_models_prefix n) | n.
                      n \<in> set (concat (names_served W log reqs))
                      \<and> trim (without_models_prefix n) \<noteq> []}"
      by blast
  next
    fix x assume "x \<in> {trim (without_models_prefix n) | n.
                      n \<in> set (concat (names_served W log reqs))
                      \<and> trim (without_models_prefix n) \<noteq> []}"
    then obtain n where n: "n \<in> set (concat (names_served W log reqs))"
      "x = trim (without_models_prefix n)" "trim (without_models_prefix n) \<noteq> []"
      by blast
    from n(3) trim_Nil have "without_models_prefix n \<noteq> []" by metis
    with n(1) have "without_models_prefix n \<in> set raw"
      unfolding rs(2) stripGeminiModelPrefix_spec by blast
    with n(2,3) show "x \<in> {trim s | s. s \<in> set raw \<and> trim s \<noteq> []}" by blast
  qed
  finally show ?thesis using rs(1) by blast
qed

lemma attempt_extends: "prefix log (snd (attempt P W mode endpoint key log))"
proof -
  obtain res log' where p: "paginate P W mode endpoint key 0 [] None log = (res, log')"
    by (cases "paginate P W mode endpoint key 0 [] None log")
  from paginate_run[OF p] have "prefix log log'" by auto
  with p show ?thesis by (simp add: attempt_fst_snd)
qed

lemma discover_result:
  "discover P W key endpoints lastError log = (Inr ms, log') \<Longrightarrow>
   \<exists>endpoint mode log1. endpoint \<in> set endpoints \<and> prefix log log1
      \<and> attempt P W mode endpoint key log1 = (Inr ms, log')"
proof (induction endpoints arbitrary: lastError log)
  case Nil
  then show ?case by simp
next
  case (Cons e es)
  obtain r1 l1 where a1: "attempt P W ByQuery e key log = (r1, l1)"
    by (cases "attempt P W ByQuery e key log")
  have p1: "prefix log l1" using attempt_extends[of log P W ByQuery e key] a1 by simp
  show ?case
  proof (cases r1)
    case (Inr ms1)
    with Cons.prems a1 have "attempt P W ByQuery e key log = (Inr ms, log')" by simp
    then show ?thesis by (intro exI[of _ e] exI[of _ ByQuery] exI[of _ log]) simp
  next
    case e1: (Inl err1)
    obtain r2 l2 where a2: "attempt P W ByHeader e key l1 = (r2, l2)"
      by (cases "attempt P W ByHeader e key l1")
    have p2: "prefix l1 l2" using attempt_extends[of l1 P W ByHeader e key] a2 by simp
    show ?thesis
    proof (cases r2)
      case (Inr ms2)
      with Cons.prems a1 e1 a2 have "attempt P W ByHeader e key l1 = (Inr ms, log')" by simp
      with p1 show ?thesis by (intro exI[of _ e] exI[of _ ByHeader] exI[of _ l1]) simp
    next
      case (Inl err2)
      with Cons.prems a1 e1 a2
      have "discover P W key es (Some (gemini_wrap err2)) l2 = (Inr ms, log')" by simp
      from Cons.IH[OF this] obtain endpoint mode log1 where
        "endpoint \<in> set es" "prefix l2 log1"
        "attempt P W mode endpoint key log1 = (Inr ms, log')" by blast
      moreover from p1 p2 this(2) have "prefix log log1"
        by (metis prefix_order.order_trans)
      ultimately show ?thesis by auto
    qed
  qed
qed

text \<open>
  Claim C5, as amended.  When Gemini discovery succeeds, its result is the result of one
  attempt on one of the candidate endpoints, and the list returned holds exactly the
  names served in the pages of that attempt, each with one leading \<open>models/\<close> segment
  stripped if present and then trimmed, those left empty dropped.  No entry of the list
  begins with \<open>models/\<close>, provided no served name, once that one segment is removed,
  still begins with \<open>models/\<close>, possibly after whitespace.
\<close>

theorem listModels_prefix_stripped:
  assumes "provider config \<noteq> OpenAI" and "apiKey config = Some key"
    and "listModels P W config log = (Inr ms, log')"
  shows "\<exists>endpoint mode log1 reqs.
           endpoint \<in> set (gemini_endpoints (baseUrl config)) \<and> prefix log log1
         \<and> attempt P W mode endpoint key log1 = (Inr ms, log')
         \<and> log' = log1 @ map Fetch reqs
         \<and> set ms = {trim (without_models_prefix n) | n.
                       n \<in> set (concat (names_served W log1 reqs))
                       \<and> trim (without_models_prefix n) \<noteq> []}
         \<and> ((\<forall>n\<in>set (concat (names_served W log1 reqs)).
                \<not> prefix (js ''models/'') (dropWhile is_ws (without_models_prefix n)))
              \<longrightarrow> (\<forall>x\<in>set ms. \<not> prefix (js ''models/'') x))"
proof -
  from assms have
    "discover P W key (gemini_endpoints (baseUrl config)) None log = (Inr ms, log')"
    by (auto simp: listModels_def split: if_splits)
  from discover_result[OF this] obtain endpoint mode log1 where
    a: "endpoint \<in> set (gemini_endpoints (baseUrl config))" "prefix log log1"
       "attempt P W mode endpoint key log1 = (Inr ms, log')" by blast
  from attempt_served[OF a(3)] obtain reqs where
    rs: "log' = log1 @ map Fetch reqs"
        "set ms = {trim (without_models_prefix n) | n.
                    n \<in> set (concat (names_served W log1 reqs))
                    \<and> trim (without_models_prefix n) \<noteq> []}"
    by blast
  have clean: "\<forall>x\<in>set ms. \<not> prefix (js ''models/'') x"
    if h: "\<forall>n\<in>set (concat (names_served W log1 reqs)).
             \<not> prefix (js ''models/'') (dropWhile is_ws (without_models_prefix n))"
  proof
    fix x assume "x \<in> set ms"
    then have "x \<in> {trim (without_models_prefix n) | n.
                     n \<in> set (concat (names_served W log1 reqs))
                     \<and> trim (without_models_prefix n) \<noteq> []}"
      unfolding rs(2) .
    then obtain n where n: "n \<in> set (concat (names_served W log1 reqs))"
      "x = trim (without_models_prefix n)" by blast
    show "\<not> prefix (js ''models/'') x"
    proof
      assume p: "prefix (js ''models/'') x"
      have "prefix x (dropWhile is_ws (without_models_prefix n))"
        unfolding n(2) by (rule trim_prefix_dropWhile)
      with p have "prefix (js ''models/'') (dropWhile is_ws (without_models_prefix n))"
        by (rule prefix_order.order_trans)
      with h n(1) show False by blast
    qed
  qed
  show ?thesis
  proof (intro exI[of _ endpoint] exI[of _ mode] exI[of _ log1] exI[of _ reqs] conjI)
    show "endpoint \<in> set (gemini_endpoints (baseUrl config))" by (rule a(1))
    show "prefix log log1" by (rule a(2))
    show "attempt P W mode endpoint key log1 = (Inr ms, log')" by (rule a(3))
    show "log' = log1 @ map Fetch reqs" by (rule rs(1))
    show "set ms = {trim (without_models_prefix n) | n.
                     n \<in> set (concat (names_served W log1 reqs))
                     \<and> trim (without_models_prefix n) \<noteq> []}"
      by (rule rs(2))
    show "(\<forall>n\<in>set (concat (names_served W log1 reqs)).
             \<not> prefix (js ''models/'') (dropWhile is_ws (without_models_prefix n)))
          \<longrightarrow> (\<forall>x\<in>set ms. \<not> prefix (js ''models/'') x)"
      using clean by (intro impI)
  qed
qed

text \<open>
  The scenario with header authentication: the one served name \<open>models/gemini-pro\<close>
  comes back as \<open>gemini-pro\<close>.
\<close>

theorem listModels_prefix_stripped_witness:
  "fst (listModels reference_platform header_only_world gemini_config []) = Inr [js ''gemini-pro'']
   \<and> without_models_prefix (js ''models/gemini-pro'') = js ''gemini-pro''
   \<and> \<not> prefix (js ''models/'') (js ''gemini-pro'')"
proof -
  have 1: "provider gemini_config \<noteq> OpenAI" "apiKey gemini_config = Some (js ''k'')"
    by (simp_all add: gemini_config_def)
  have 2: "listModels reference_platform header_only_world gemini_config [] =
     (Inr [js ''gemini-pro''],
      [Fetch \<lparr>req_url = gemini_default_endpoint @ js ''?key=k'', req_method = GET,
              req_headers = [], req_body = None\<rparr>,
       Fetch \<lparr>req_url = gemini_default_endpoint, req_method = GET,
              req_headers = [(js ''x-goog-api-key'', js ''k'')], req_body = None\<rparr>])"
    by (simp add: run_defs gemini_config_def header_only_world_def forbidden_def
        models_page_def)
  have 3: "without_models_prefix (js ''models/gemini-pro'') = js ''gemini-pro''"
    by (simp add: without_models_prefix_def js_def)
  from listModels_prefix_stripped[OF 1 2] 2 3 show ?thesis by (simp add: js_def)
qed

text \<open>
  Against claim C5 as stated: the name \<open>models/models/x\<close> is returned as
  \<open>models/x\<close>.
\<close>

theorem prefix_reintroduced_counterexample:
  "fst (listModels reference_platform nested_prefix_world gemini_config [])
     = Inr [js ''models/x'']
   \<and> prefix (js ''models/'') (js ''models/x'')"
  by (simp add: run_defs gemini_config_def nested_prefix_world_def models_page_def)

section \<open>Errors of the OpenAI-compatible listing\<close>

lemma prefix_formatNetworkError:
  "err_message e \<noteq> [] \<Longrightarrow> prefix (err_message e) (formatNetworkError e)"
  by (simp add: formatNetworkError_def Let_def)

text \<open>
  Claim C10.  In the OpenAI-compatible listing a response that is not ok is turned into
  an error with the prefix of a failed listing, which the \<open>catch\<close> block wraps again:
  the message raised starts with both prefixes and the detail.  Every failure of the
  \<open>try\<close> block is raised as the wrapping of that very error passed through
  \<open>formatNetworkError\<close>, and the path fails in no other way: so it is when \<open>fetch\<close>
  rejects, and when the body of an ok response cannot be parsed.
\<close>

theorem openai_listing_errors:
  assumes "provider config = OpenAI" and "apiKey config = Some key" and "key \<noteq> []"
  shows "(\<forall>r. fetch W log (models_request (openai_baseUrl (baseUrl config)) key) = Inr r
              \<longrightarrow> \<not> ok r \<longrightarrow>
            (\<exists>e. listModels P W config log
                   = (Inl e, log @ [Fetch (models_request (openai_baseUrl (baseUrl config)) key)])
                \<and> e = new_Error (js ''OpenAI '' @ list_failed @ js '': ''
                        @ formatNetworkError
                            (new_Error (list_failed @ js '': '' @ http_detail r)))
                \<and> prefix (js ''OpenAI '' @ list_failed @ js '': ''
                            @ list_failed @ js '': '' @ http_detail r)
                          (err_message e)))
       \<and> (\<forall>e0. fetch W log (models_request (openai_baseUrl (baseUrl config)) key) = Inl e0
              \<longrightarrow> listModels P W config log
                   = (Inl (new_Error (js ''OpenAI '' @ list_failed @ js '': ''
                                      @ formatNetworkError e0)),
                      log @ [Fetch (models_request (openai_baseUrl (baseUrl config)) key)]))
       \<and> (\<forall>r e0. fetch W log (models_request (openai_baseUrl (baseUrl config)) key) = Inr r
              \<longrightarrow> ok r \<longrightarrow> json_body r = Inl e0
              \<longrightarrow> listModels P W config log
                   = (Inl (new_Error (js ''OpenAI '' @ list_failed @ js '': ''
                                      @ formatNetworkError e0)),
                      log @ [Fetch (models_request (openai_baseUrl (baseUrl config)) key)]))
       \<and> (\<forall>e0. fst (openai_list_try P W (openai_baseUrl (baseUrl config)) key log) = Inl e0
              \<longrightarrow> fst (listModels P W config log)
                   = Inl (new_Error (js ''OpenAI '' @ list_failed @ js '': ''
                                     @ formatNetworkError e0)))
       \<and> (\<forall>e. fst (listModels P W config log) = Inl e \<longrightarrow>
            (\<exists>e0. fst (openai_list_try P W (openai_baseUrl (baseUrl config)) key log) = Inl e0
                 \<and> e = new_Error (js ''OpenAI '' @ list_failed @ js '': ''
                                  @ formatNetworkError e0)))"
proof (intro conjI allI impI)
  fix r
  assume r: "fetch W log (models_request (openai_baseUrl (baseUrl config)) key) = Inr r"
    and nok: "\<not> ok r"
  let ?inner = "new_Error (list_failed @ js '': '' @ http_detail r)"
  let ?e = "new_Error (js ''OpenAI '' @ list_failed @ js '': '' @ formatNetworkError ?inner)"
  have run: "listModels P W config log
         = (Inl ?e, log @ [Fetch (models_request (openai_baseUrl (baseUrl config)) key)])"
    using assms r nok
    by (simp add: listModels_def openai_list_try_def openai_wrap_def http_failure_def)
  have "err_message ?inner \<noteq> []" by (simp add: new_Error_def list_failed_def)
  from prefix_formatNetworkError[OF this]
  have "prefix (list_failed @ js '': '' @ http_detail r) (formatNetworkError ?inner)"
    by (simp add: new_Error_def)
  then have "prefix (js ''OpenAI '' @ list_failed @ js '': ''
                      @ list_failed @ js '': '' @ http_detail r) (err_message ?e)"
    by (simp add: new_Error_def)
  with run show "\<exists>e. listModels P W config log
                   = (Inl e, log @ [Fetch (models_request (openai_baseUrl (baseUrl config)) key)])
                \<and> e = new_Error (js ''OpenAI '' @ list_failed @ js '': ''
                        @ formatNetworkError
                            (new_Error (list_failed @ js '': '' @ http_detail r)))
                \<and> prefix (js ''OpenAI '' @ list_failed @ js '': ''
                            @ list_failed @ js '': '' @ http_detail r)
                          (err_message e)"
    by blast
next
  fix e0
  assume "fetch W log (models_request (openai_baseUrl (baseUrl config)) key) = Inl e0"
  with assms show "listModels P W config log
                   = (Inl (new_Error (js ''OpenAI '' @ list_failed @ js '': ''
                                      @ formatNetworkError e0)),
                      log @ [Fetch (models_request (openai_baseUrl (baseUrl config)) key)])"
    by (simp add: listModels_def openai_list_try_def openai_wrap_def)
next
  fix r e0
  assume "fetch W log (models_request (openai_baseUrl (baseUrl config)) key) = Inr r"
    and "ok r" and "json_body r = Inl e0"
  with assms show "listModels P W config log
                   = (Inl (new_Error (js ''OpenAI '' @ list_failed @ js '': ''
                                      @ formatNetworkError e0)),
                      log @ [Fetch (models_request (openai_baseUrl (baseUrl config)) key)])"
    by (simp add: listModels_def openai_list_try_def openai_wrap_def)
next
  fix e0
  assume "fst (openai_list_try P W (openai_baseUrl (baseUrl config)) key log) = Inl e0"
  with assms show "fst (listModels P W config log)
                   = Inl (new_Error (js ''OpenAI '' @ list_failed @ js '': ''
                                     @ formatNetworkError e0))"
    by (auto simp: listModels_def openai_wrap_def split: prod.splits sum.splits)
next
  fix e assume "fst (listModels P W config log) = Inl e"
  with assms show "\<exists>e0. fst (openai_list_try P W (openai_baseUrl (baseUrl config)) key log)
                         = Inl e0
                 \<and> e = new_Error (js ''OpenAI '' @ list_failed @ js '': ''
                                  @ formatNetworkError e0)"
    by (auto simp: listModels_def openai_wrap_def split: prod.splits sum.splits)
qed

text \<open>
  A provider that answers 429 with a structured error body, and a network that cannot be
  reached: the second message takes the hint of \<open>formatNetworkError\<close>.
\<close>

theorem openai_listing_errors_witness:
  "listModels reference_platform quota_world openai_config []
     = (Inl (new_Error (js ''OpenAI '' @ list_failed @ js '': '' @ list_failed
                        @ js '': '' @ js ''quota exceeded'')),
        [Fetch (models_request openai_default_base (js ''k''))])
   \<and> listModels reference_platform offline_world openai_config []
     = (Inl (new_Error (js ''OpenAI '' @ list_failed @ js '': '' @ js ''Failed to fetch''
                        @ cors_hint)),
        [Fetch (models_request openai_default_base (js ''k''))])"
proof -
  have 1: "provider openai_config = OpenAI" "apiKey openai_config = Some (js ''k'')"
    "js ''k'' \<noteq> []"
    by (simp_all add: openai_config_def js_def)
  have 2: "fetch quota_world [] (models_request (openai_baseUrl (baseUrl openai_config)) (js ''k''))
           = Inr quota_response" "\<not> ok quota_response"
    by (simp_all add: quota_world_def fetch_world_def quota_response_def ok_def)
  have 3: "http_detail quota_response = js ''quota exceeded''"
    by (simp add: http_detail_def quota_response_def safeParseJson_def js_or_def template_def
        js_def)
  have 4: "formatNetworkError (new_Error (list_failed @ js '': '' @ js ''quota exceeded''))
           = list_failed @ js '': '' @ js ''quota exceeded''"
    by (simp add: formatNetworkError_def new_Error_def list_failed_def js_def ascii_lower_def)
  have 5: "openai_baseUrl (baseUrl openai_config) = openai_default_base"
    by (simp add: openai_baseUrl_def openai_config_def)
  have 6: "formatNetworkError offline = js ''Failed to fetch'' @ cors_hint"
    by (simp add: formatNetworkError_def offline_def js_def ascii_lower_def)
  have 7: "listModels reference_platform offline_world openai_config []
     = (Inl (new_Error (js ''OpenAI '' @ list_failed @ js '': '' @ js ''Failed to fetch''
                        @ cors_hint)),
        [Fetch (models_request openai_default_base (js ''k''))])"
    using 1 5 6
    by (simp add: listModels_def openai_list_try_def openai_wrap_def offline_world_def
        fetch_world_def)
  from openai_listing_errors[OF 1, of quota_world "[]" reference_platform] 2 3 4 5 7
  show ?thesis by auto
qed

section \<open>Normalising the base URL\<close>

lemma suffix_single: "suffix [a] y \<longleftrightarrow> y \<noteq> [] \<and> last y = a"
proof (cases y rule: rev_cases)
  case Nil
  then show ?thesis by simp
next
  case (snoc ys l)
  have "suffix ([] @ [a]) (ys @ [l]) \<longleftrightarrow> a = l" by (simp only: snoc_suffix_snoc) simp
  with snoc show ?thesis by auto
qed

lemma js_slash: "js ''/'' = [0x2F]"
  by (simp add: js_def)

lemma strip_trailing_slash_fixed:
  "strip_trailing_slash y = y \<longleftrightarrow> \<not> suffix (js ''/'') y"
proof (cases y rule: rev_cases)
  case Nil
  then show ?thesis by (simp add: strip_trailing_slash_def js_slash)
next
  case (snoc ys l)
  then show ?thesis by (simp add: strip_trailing_slash_def js_slash suffix_single)
qed

lemma openai_default_base_fixed:
  "openai_default_base \<noteq> []" "strip_trailing_slash openai_default_base = openai_default_base"
  by (simp_all add: openai_default_base_def strip_trailing_slash_def js_def)

lemma openai_twice:
  "openai_baseUrl (Some (openai_baseUrl b)) = openai_baseUrl b
     \<longleftrightarrow> openai_baseUrl b \<noteq> [] \<and> \<not> suffix (js ''/'') (openai_baseUrl b)"
proof (cases "openai_baseUrl b = []")
  case True
  then show ?thesis using openai_default_base_fixed(1) by (simp add: openai_baseUrl_def)
next
  case False
  then have "openai_baseUrl (Some (openai_baseUrl b)) = strip_trailing_slash (openai_baseUrl b)"
    by (simp add: openai_baseUrl_def)
  with False show ?thesis by (simp add: strip_trailing_slash_fixed)
qed

lemma length_trim: "length (trim s) \<le> length s"
proof -
  have "length (trim s) \<le> length (rev (dropWhile is_ws s))"
    unfolding trim_def length_rev by (metis length_dropWhile_le length_rev)
  also have "\<dots> \<le> length s" by (simp add: length_dropWhile_le)
  finally show ?thesis .
qed

lemma strip_trailing_slash_cases:
  "strip_trailing_slash t = t \<or> (t \<noteq> [] \<and> strip_trailing_slash t = butlast t)"
  by (simp add: strip_trailing_slash_def)

lemma gemini_twice:
  "gemini_customBase (Some (gemini_customBase b)) = gemini_customBase b
     \<longleftrightarrow> \<not> suffix (js ''/'') (gemini_customBase b)
         \<and> trim (gemini_customBase b) = gemini_customBase b"
proof -
  let ?y = "gemini_customBase b"
  have blank: "trim [] = []" by (simp add: trim_def)
  show ?thesis
  proof (cases "?y = []")
    case True
    then show ?thesis by (simp add: gemini_customBase_def js_slash blank)
  next
    case ne: False
    show ?thesis
    proof (cases "trim ?y = ?y")
      case True
      with ne have "gemini_customBase (Some ?y) = strip_trailing_slash ?y"
        by (simp add: gemini_customBase_def)
      with True show ?thesis by (simp add: strip_trailing_slash_fixed)
    next
      case False
      have "gemini_customBase (Some ?y) \<noteq> ?y"
      proof
        assume eq: "gemini_customBase (Some ?y) = ?y"
        with ne have t: "trim ?y \<noteq> []" "strip_trailing_slash (trim ?y) = ?y"
          by (auto simp: gemini_customBase_def split: if_splits)
        from strip_trailing_slash_cases[of "trim ?y"] t(2) False
        have "?y = butlast (trim ?y)" by auto
        then have "length ?y = length (trim ?y) - 1" by (metis length_butlast)
        moreover have "length (trim ?y) \<noteq> 0" using t(1) by simp
        ultimately show False using length_trim[of ?y] by arith
      qed
      with False show ?thesis by simp
    qed
  qed
qed

lemma js_two_slashes: "js ''//'' = [0x2F] @ [0x2F]"
  by (simp add: js_def)

lemma strip_trailing_slash_settled:
  assumes "\<not> suffix (js ''//'') t"
  shows "\<not> suffix (js ''/'') (strip_trailing_slash t)"
proof (cases t rule: rev_cases)
  case Nil
  then show ?thesis by (simp add: strip_trailing_slash_def js_slash)
next
  case (snoc ts l)
  show ?thesis
  proof (cases "l = 0x2F")
    case True
    with assms snoc have "\<not> suffix [0x2F] ts"
      unfolding js_two_slashes by (simp only: snoc_suffix_snoc) simp
    with True snoc show ?thesis by (simp add: strip_trailing_slash_def js_slash)
  next
    case False
    with snoc show ?thesis by (simp add: strip_trailing_slash_def js_slash suffix_single)
  qed
qed

lemma openai_single_slash:
  assumes "\<not> suffix (js ''//'') u" and "u \<noteq> js ''/''"
  shows "openai_baseUrl (Some (openai_baseUrl (Some u))) = openai_baseUrl (Some u)"
proof (cases "u = []")
  case True
  then show ?thesis using openai_default_base_fixed by (simp add: openai_baseUrl_def)
next
  case False
  then have y: "openai_baseUrl (Some u) = strip_trailing_slash u"
    by (simp add: openai_baseUrl_def)
  have "strip_trailing_slash u \<noteq> []"
  proof (cases u rule: rev_cases)
    case Nil
    with False show ?thesis by simp
  next
    case (snoc us l)
    with assms(2) show ?thesis by (auto simp: strip_trailing_slash_def js_slash)
  qed
  with strip_trailing_slash_settled[OF assms(1)] show ?thesis
    using openai_twice[of "Some u"] by (simp add: y)
qed

lemma trim_no_ws: "\<forall>c\<in>set s. \<not> is_ws c \<Longrightarrow> trim s = s"
proof -
  assume a: "\<forall>c\<in>set s. \<not> is_ws c"
  then have "dropWhile is_ws s = s" by (cases s) auto
  moreover from a have "dropWhile is_ws (rev s) = rev s" by (cases "rev s") auto
  ultimately show ?thesis by (simp add: trim_def)
qed

lemma gemini_single_slash:
  assumes "\<not> suffix (js ''//'') u" and "\<forall>c\<in>set u. \<not> is_ws c"
  shows "gemini_customBase (Some (gemini_customBase (Some u))) = gemini_customBase (Some u)"
proof (cases "u = []")
  case True
  then show ?thesis by (simp add: gemini_customBase_def)
next
  case False
  with assms(2) have y: "gemini_customBase (Some u) = strip_trailing_slash u"
    by (simp add: gemini_customBase_def trim_no_ws)
  have "\<forall>c\<in>set (strip_trailing_slash u). \<not> is_ws c"
    using assms(2) by (auto simp: strip_trailing_slash_def dest: in_set_butlastD)
  then have "trim (strip_trailing_slash u) = strip_trailing_slash u" by (rule trim_no_ws)
  with strip_trailing_slash_settled[OF assms(1)] show ?thesis
    using gemini_twice[of "Some u"] by (simp add: y)
qed

text \<open>
  Claim C3, as amended.  The normalisation removes one trailing slash only.  Applying it
  twice gives the same as applying it once exactly when the string normalised once no
  longer ends with a slash and, on the OpenAI-compatible path, is not empty, or, on the
  Gemini path, has no whitespace left at its ends.  That is the case for an absent URL,
  and for every URL that does not end with two slashes, provided it is not the lone slash
  (OpenAI-compatible path) or holds no whitespace (Gemini path).
\<close>

theorem normalize_idempotent_iff:
  "(openai_baseUrl (Some (openai_baseUrl b)) = openai_baseUrl b
      \<longleftrightarrow> openai_baseUrl b \<noteq> [] \<and> \<not> suffix (js ''/'') (openai_baseUrl b))
   \<and> (gemini_customBase (Some (gemini_customBase b)) = gemini_customBase b
      \<longleftrightarrow> \<not> suffix (js ''/'') (gemini_customBase b)
          \<and> trim (gemini_customBase b) = gemini_customBase b)
   \<and> (\<not> suffix (js ''//'') u \<and> u \<noteq> js ''/''
      \<longrightarrow> openai_baseUrl (Some (openai_baseUrl (Some u))) = openai_baseUrl (Some u))
   \<and> (\<not> suffix (js ''//'') u \<and> (\<forall>c\<in>set u. \<not> is_ws c)
      \<longrightarrow> gemini_customBase (Some (gemini_customBase (Some u))) = gemini_customBase (Some u))
   \<and> openai_baseUrl (Some (openai_baseUrl None)) = openai_baseUrl None
   \<and> gemini_customBase (Some (gemini_customBase None)) = gemini_customBase None"
proof (intro conjI impI)
  show "openai_baseUrl (Some (openai_baseUrl b)) = openai_baseUrl b
      \<longleftrightarrow> openai_baseUrl b \<noteq> [] \<and> \<not> suffix (js ''/'') (openai_baseUrl b)"
    by (rule openai_twice)
  show "gemini_customBase (Some (gemini_customBase b)) = gemini_customBase b
      \<longleftrightarrow> \<not> suffix (js ''/'') (gemini_customBase b)
          \<and> trim (gemini_customBase b) = gemini_customBase b"
    by (rule gemini_twice)
  show "openai_baseUrl (Some (openai_baseUrl (Some u))) = openai_baseUrl (Some u)"
    if "\<not> suffix (js ''//'') u \<and> u \<noteq> js ''/''"
    using that by (simp add: openai_single_slash)
  show "gemini_customBase (Some (gemini_customBase (Some u))) = gemini_customBase (Some u)"
    if "\<not> suffix (js ''//'') u \<and> (\<forall>c\<in>set u. \<not> is_ws c)"
    using that by (simp add: gemini_single_slash)
  show "openai_baseUrl (Some (openai_baseUrl None)) = openai_baseUrl None"
    using openai_default_base_fixed by (simp add: openai_baseUrl_def)
  show "gemini_customBase (Some (gemini_customBase None)) = gemini_customBase None"
    by (simp add: gemini_customBase_def)
qed

theorem normalize_idempotent_iff_witness:
  "\<not> suffix (js ''//'') (js ''https://x.io/v1/'') \<and> js ''https://x.io/v1/'' \<noteq> js ''/''
   \<and> openai_baseUrl (Some (js ''https://x.io/v1/'')) = js ''https://x.io/v1''
   \<and> openai_baseUrl (Some (openai_baseUrl (Some (js ''https://x.io/v1/''))))
       = openai_baseUrl (Some (js ''https://x.io/v1/''))
   \<and> gemini_customBase (Some (gemini_customBase (Some (js ''https://x.io/v1/''))))
       = gemini_customBase (Some (js ''https://x.io/v1/''))"
proof -
  have h: "\<not> suffix (js ''//'') (js ''https://x.io/v1/'')" "js ''https://x.io/v1/'' \<noteq> js ''/''"
    "\<forall>c\<in>set (js ''https://x.io/v1/''). \<not> is_ws c"
    by (simp_all add: js_def suffix_def is_ws_def append_eq_Cons_conv)
  have e: "openai_baseUrl (Some (js ''https://x.io/v1/'')) = js ''https://x.io/v1''"
    by (simp add: openai_baseUrl_def strip_trailing_slash_def js_def)
  from normalize_idempotent_iff[of "Some (js ''https://x.io/v1/'')" "js ''https://x.io/v1/''"] h e
  show ?thesis by simp
qed

text \<open>
  Against claim C3 as stated: a URL that ends with two slashes loses one at each
  application.
\<close>

theorem normalize_idempotent_counterexample:
  "openai_baseUrl (Some (openai_baseUrl (Some (js ''https://x.io/v1//''))))
     \<noteq> openai_baseUrl (Some (js ''https://x.io/v1//''))
   \<and> gemini_customBase (Some (gemini_customBase (Some (js ''https://x.io/v1//''))))
     \<noteq> gemini_customBase (Some (js ''https://x.io/v1//''))"
  by (simp add: openai_baseUrl_def gemini_customBase_def strip_trailing_slash_def trim_def
      is_ws_def js_def)


section \<open>The size of an OpenAI-compatible image\<close>

lemma callOpenAIImage_log:
  "snd (callOpenAIImage P W config prompt sz log) = log @ [Fetch (image_request config prompt sz)]"
  by (simp add: callOpenAIImage_def Let_def split: sum.splits)

lemma requested_size:
  "get_opt (req_body (image_request config prompt sz)) (js ''size'')
     = Some (JStr (openai_image_size sz))"
  by (simp add: image_request_def js_def)

lemma wide_only_exact: "openai_image_size sz = js ''1792x1024'' \<longleftrightarrow> sz = js ''16:9''"
proof
  assume "openai_image_size sz = js ''1792x1024''"
  moreover have "js ''1024x1024'' \<noteq> js ''1792x1024''" by (simp add: js_def)
  ultimately show "sz = js ''16:9''"
    by (auto simp: openai_image_size_def split: if_splits)
next
  assume "sz = js ''16:9''"
  moreover have "\<not> js_includes (js ''16:9'') (js ''1024'')" by (simp add: js_def)
  ultimately show "openai_image_size sz = js ''1792x1024''"
    by (simp add: openai_image_size_def)
qed

text \<open>
  Claim C4, as amended.  \<open>callOpenAIImage\<close> sends one request, whose \<open>size\<close> is
  \<open>1024x1024\<close> or \<open>1792x1024\<close>: \<open>1024x1024\<close> by default and for every size string
  that contains \<open>1024\<close>; \<open>1792x1024\<close> for the size string \<open>16:9\<close> itself and for
  no other.
\<close>

theorem openai_image_size_mapping:
  "snd (callOpenAIImage P W config prompt sz log) = log @ [Fetch (image_request config prompt sz)]
   \<and> get_opt (req_body (image_request config prompt sz)) (js ''size'')
       = Some (JStr (openai_image_size sz))
   \<and> (openai_image_size sz = js ''1024x1024'' \<or> openai_image_size sz = js ''1792x1024'')
   \<and> (js_includes sz (js ''1024'') \<longrightarrow> openai_image_size sz = js ''1024x1024'')
   \<and> (openai_image_size sz = js ''1792x1024'' \<longleftrightarrow> sz = js ''16:9'')"
proof (intro conjI impI)
  show "snd (callOpenAIImage P W config prompt sz log)
          = log @ [Fetch (image_request config prompt sz)]"
    by (rule callOpenAIImage_log)
  show "get_opt (req_body (image_request config prompt sz)) (js ''size'')
          = Some (JStr (openai_image_size sz))"
    by (rule requested_size)
  show "openai_image_size sz = js ''1024x1024'' \<or> openai_image_size sz = js ''1792x1024''"
    by (simp add: openai_image_size_def)
  show "openai_image_size sz = js ''1024x1024''" if "js_includes sz (js ''1024'')"
    using that by (simp add: openai_image_size_def)
  show "openai_image_size sz = js ''1792x1024'' \<longleftrightarrow> sz = js ''16:9''"
    by (rule wide_only_exact)
qed

theorem openai_image_size_mapping_witness:
  "js_includes (js ''1024x1792'') (js ''1024'')
   \<and> openai_image_size (js ''1024x1792'') = js ''1024x1024''
   \<and> openai_image_size (js ''16:9'') = js ''1792x1024''
   \<and> openai_image_size (js ''4:3'') = js ''1024x1024''"
proof -
  have "js_includes (js ''1024x1792'') (js ''1024'')" by (simp add: js_def)
  moreover have "openai_image_size (js ''4:3'') = js ''1024x1024''"
    by (simp add: openai_image_size_def js_def)
  ultimately show ?thesis
    using openai_image_size_mapping[of _ _ _ _ "js ''1024x1792''"]
      openai_image_size_mapping[of _ _ _ _ "js ''16:9''"]
    by simp
qed

text \<open>
  Against claim C4 as stated: a size string that contains \<open>16:9\<close> without being equal
  to it gets the square size.
\<close>

theorem wide_size_counterexample:
  "js_includes (js ''16:9 landscape'') (js ''16:9'')
   \<and> get_opt (req_body (image_request openai_config (js ''a cat'') (js ''16:9 landscape'')))
       (js ''size'') = Some (JStr (js ''1024x1024''))
   \<and> js ''1024x1024'' \<noteq> js ''1792x1024''"
  by (simp add: image_request_def openai_image_size_def js_def)

section \<open>The missing API key\<close>

text \<open>
  Claim C6.  With an API key that is absent or empty, each of the five public operations
  returns its own configure-the-key error and leaves the list of calls as it was: nothing
  has been sent.
\<close>

theorem missing_key_fails_first:
  assumes "apiKey config = None \<or> apiKey config = Some []"
  shows "generateChatResponse P W config prompt history log = (Inl (new_Error chat_key_msg), log)
       \<and> generateFormattedContent P W config content log = (Inl (new_Error format_key_msg), log)
       \<and> generateImage P W config prompt sz log = (Inl (new_Error image_key_msg), log)
       \<and> generateThemeCSS P W config prompt log = (Inl (new_Error theme_key_msg), log)
       \<and> listModels P W config log = (Inl (new_Error configure_key_msg), log)"
proof -
  from assms have "no_key config" by (auto simp: no_key_def or_default_def)
  then show ?thesis
    using assms
    by (auto simp: generateChatResponse_def generateFormattedContent_def generateImage_def
        generateThemeCSS_def listModels_def)
qed

theorem missing_key_fails_first_witness:
  "apiKey empty_key_config = Some []
   \<and> generateChatResponse reference_platform quota_world empty_key_config (js ''hello'') [] []
       = (Inl (new_Error chat_key_msg), [])
   \<and> listModels reference_platform quota_world empty_key_config []
       = (Inl (new_Error configure_key_msg), [])"
proof -
  have "apiKey empty_key_config = Some []" by (simp add: empty_key_config_def)
  with missing_key_fails_first[of empty_key_config reference_platform quota_world
         "js ''hello''" "[]" "[]"]
  show ?thesis by simp
qed

section \<open>Empty results\<close>

text \<open>
  Claim C8.  On the OpenAI-compatible path, when the response is ok and the first entry
  of \<open>data\<close> has neither a truthy \<open>b64_json\<close> nor a truthy \<open>url\<close> (absent ones
  included, as is an empty \<open>data\<close>), \<open>generateImage\<close> returns the empty string and
  raises nothing.
\<close>

theorem empty_image_entry:
  assumes "provider config = OpenAI" and "\<not> no_key config"
    and "fetch W log (image_request config prompt sz) = Inr r" and "ok r"
    and "json_body r = Inr data"
    and "get_opt (Some data) (js ''data'') = Some entries" and "entries \<noteq> JNull"
    and "\<not> truthy (get_opt (index0_opt (Some entries)) (js ''b64_json''))"
    and "\<not> truthy (get_opt (index0_opt (Some entries)) (js ''url''))"
  shows "generateImage P W config prompt sz log
           = (Inr (Some (JStr [])), log @ [Fetch (image_request config prompt sz)])"
proof -
  from assms(6) have "data \<noteq> JNull" by (cases data) simp_all
  with assms show ?thesis
    by (simp add: generateImage_def callOpenAIImage_def image_of_body_def get_strict_def
        index0_strict_def js_or_def)
qed

theorem empty_image_entry_witness:
  "generateImage reference_platform empty_entry_world openai_config (js ''a cat'')
     (js ''1024x1024'') []
   = (Inr (Some (JStr [])),
      [Fetch (image_request openai_config (js ''a cat'') (js ''1024x1024''))])"
proof -
  let ?r = "\<lparr>status = 200, statusText = js ''OK'',
             json_body = Inr (JObj [(js ''data'', JArr [JObj []])])\<rparr>"
  have "provider openai_config = OpenAI" "\<not> no_key openai_config"
    "fetch empty_entry_world [] (image_request openai_config (js ''a cat'') (js ''1024x1024''))
       = Inr ?r" "ok ?r" "json_body ?r = Inr (JObj [(js ''data'', JArr [JObj []])])"
    "get_opt (Some (JObj [(js ''data'', JArr [JObj []])])) (js ''data'') = Some (JArr [JObj []])"
    "JArr [JObj []] \<noteq> JNull"
    "\<not> truthy (get_opt (index0_opt (Some (JArr [JObj []]))) (js ''b64_json''))"
    "\<not> truthy (get_opt (index0_opt (Some (JArr [JObj []]))) (js ''url''))"
    by (simp_all add: openai_config_def no_key_def or_default_def empty_entry_world_def
        fetch_world_def ok_def js_def)
  from empty_image_entry[OF this, of reference_platform] show ?thesis by simp
qed

text \<open>
  Claim C9.  On the Gemini path of \<open>generateFormattedContent\<close>, a response whose text
  is absent or empty makes the operation return the caller's content as it was given.
\<close>

theorem empty_format_returns_input:
  assumes "provider config \<noteq> OpenAI" and "\<not> no_key config"
    and "generateContent W log (formatting_request config content) = Inr response"
    and "response_text response = None \<or> response_text response = Some []"
  shows "generateFormattedContent P W config content log
           = (Inr (Some (JStr content)),
              log @ [GenerateContent (formatting_request config content)])"
  using assms
  by (auto simp: generateFormattedContent_def or_default_def Let_def)

theorem empty_format_returns_input_witness:
  "generateFormattedContent reference_platform silent_world gemini_config (js ''# Title'') []
     = (Inr (Some (JStr (js ''# Title''))),
        [GenerateContent (formatting_request gemini_config (js ''# Title''))])"
proof -
  have "provider gemini_config \<noteq> OpenAI" "\<not> no_key gemini_config"
    "generateContent silent_world [] (formatting_request gemini_config (js ''# Title''))
       = Inr \<lparr>response_text = None, candidates = None\<rparr>"
    "response_text \<lparr>response_text = None, candidates = None\<rparr> = None
     \<or> response_text \<lparr>response_text = None, candidates = None\<rparr> = Some []"
    by (simp_all add: gemini_config_def no_key_def or_default_def silent_world_def js_def)
  from empty_format_returns_input[OF this, of reference_platform] show ?thesis by simp
qed


end
